theory Spec2Isabelle
  imports Complex_Main "HOL-Library.AList"
begin

section \<open>Conventions\<close>

text \<open>
  The development embeds the vault control loop of \<^verbatim>\<open>src/backend/agents\<close>:
  \<^verbatim>\<open>execution_agent.py\<close>, \<^verbatim>\<open>risk_agent.py\<close> and \<^verbatim>\<open>orchestrator.py\<close>.

  \<^item> Python's \<^verbatim>\<open>Decimal\<close> is embedded as \<^typ>\<open>rat\<close>: exact arithmetic, without the
    rounding of the decimal context to 28 significant digits.
  \<^item> A naive \<^verbatim>\<open>datetime\<close> is an \<^typ>\<open>int\<close>: the microseconds since the naive
    1970-01-01 00:00:00. A \<^verbatim>\<open>timedelta\<close> is an \<^typ>\<open>int\<close> of microseconds.
  \<^item> A raised exception is a value of type \<open>error\<close>; a function that may raise
    returns \<open>error + 'a\<close>, with \<open>Inl\<close> for the exception.
  \<^item> A \<^verbatim>\<open>dict\<close> is an association list in insertion order with distinct keys,
    updated by \<^const>\<open>AList.update\<close>.
\<close>

datatype error =
    JSONDecodeError string
  | ValueError string
  | KeyError string
  | DivisionByZero
  | OverflowError
  | Failure string

text \<open>\<^verbatim>\<open>str(e)\<close> of a caught exception.\<close>

fun str_error :: "error \<Rightarrow> string" where
  "str_error (JSONDecodeError m) = m"
| "str_error (ValueError m) = m"
| "str_error (KeyError k) = k"
| "str_error DivisionByZero = ''division by zero''"
| "str_error OverflowError = ''date value out of range''"
| "str_error (Failure m) = m"

text \<open>\<^verbatim>\<open>str(n)\<close> of a Python integer, as the f-strings print it.\<close>

fun str_nat :: "nat \<Rightarrow> string" where
  "str_nat n =
     (if n < 10 then [char_of (48 + n)]
      else str_nat (n div 10) @ [char_of (48 + n mod 10)])"

definition str_int :: "int \<Rightarrow> string" where
  "str_int i = (if i < 0 then CHR ''-'' # str_nat (nat (- i)) else str_nat (nat i))"

section \<open>Data model\<close>

text \<open>The dataclasses of \<^verbatim>\<open>execution_agent.py\<close>. Allocations are fractions of the TVL
  (basis points divided by 10000), amounts are in USDC.
  The display string \<^verbatim>\<open>reason\<close> of a proposal is left out.\<close>

record StrategyAllocation =
  address :: string
  name :: string
  current_allocation :: rat
  target_allocation :: rat
  max_allocation :: rat
  total_deposited :: rat
  current_apy :: rat
  utilization :: rat

record RebalanceProposal =
  from_strategy :: string
  to_strategy :: string
  amount :: rat
  percentage_of_tvl :: rat
  expected_apy_improvement :: rat
  gas_estimate :: int
  gas_price_gwei :: rat

text \<open>The dataclasses of \<^verbatim>\<open>risk_agent.py\<close>.\<close>

record RiskAnalysis =
  timestamp :: int
  composite_score :: int
  protocol_risk :: int
  liquidity_risk :: int
  utilization_risk :: int
  governance_risk :: int
  oracle_risk :: int
  risk_level :: string
  recommended_action :: string
  action_urgency :: string
  reasoning :: string
  strategy_risks :: "(string \<times> int) list"
  alerts :: "string list"
  should_emergency_unwind :: bool
  unwind_strategies :: "string list"

text \<open>The fields of \<^verbatim>\<open>VaultData\<close> carry the prefix \<open>vd_\<close>, so that \<open>tvl\<close>,
  \<open>allocations\<close> and \<open>last_rebalance\<close> stay free for the local variables of these
  names.\<close>

record VaultData =
  vd_tvl :: rat
  vd_allocations :: "(string \<times> rat) list"
  vd_utilization_rates :: "(string \<times> rat) list"
  vd_strategy_apys :: "(string \<times> rat) list"
  vd_current_risk_score :: int
  vd_idle_buffer :: rat
  vd_last_rebalance :: int
  vd_pending_withdrawals :: rat

text \<open>
  The dict that \<^verbatim>\<open>json.loads\<close> returns for the assessor's answer: each key of the
  prompt's format is present (\<open>Some\<close>) or absent (\<open>None\<close>), with a value of the type the
  \<^verbatim>\<open>RiskAnalysis\<close> dataclass declares for it.
\<close>

record result_dict =
  r_composite_score :: "int option"
  r_protocol_risk :: "int option"
  r_liquidity_risk :: "int option"
  r_utilization_risk :: "int option"
  r_governance_risk :: "int option"
  r_oracle_risk :: "int option"
  r_risk_level :: "string option"
  r_recommended_action :: "string option"
  r_action_urgency :: "string option"
  r_reasoning :: "string option"
  r_strategy_risks :: "(string \<times> int) list option"
  r_alerts :: "string list option"
  r_should_emergency_unwind :: "bool option"
  r_unwind_strategies :: "string list option"

text \<open>
  The tuple that \<^verbatim>\<open>vault.functions.strategies(i).call()\<close> returns:
  (address, name, allocation, maxAllocation, targetAllocation, isActive, totalDeposited,
  lastHarvestTime), the numbers being unsigned integers of the contract.
\<close>

record strategy_tuple =
  st_address :: string
  st_name :: string
  st_allocation :: nat
  st_maxAllocation :: nat
  st_targetAllocation :: nat
  st_isActive :: bool
  st_totalDeposited :: nat
  st_lastHarvestTime :: nat


section \<open>The world: external calls and their trace\<close>

text \<open>
  Everything outside the three agents (the chain, the database, the assessor's API, Redis,
  the clock, the logger, the metrics) is the world. The program's run is recorded as a
  trace: the list of its external calls, oldest first. The world answers each call by a
  function of the trace before the call (and of the call's arguments), so an answer may
  depend on everything that happened before, and on nothing else. A call that may raise
  answers with \<open>error + 'a\<close>.
\<close>

datatype level = DEBUG | INFO | WARNING | ERROR

text \<open>The messages of the \<^verbatim>\<open>logger\<close> calls, by their arguments.\<close>

datatype message =
    ParseFailed string
  | ExecutingEmergencyUnwind int
  | StrategyNotFound string
  | UnwindTxSent string
  | UnwindCompleted int
  | UnwindFailed string error
  | AttemptFailed nat error nat
  | AnalysisFailed nat "error option"
  | SignalsFailed error
  | CycleStarting
  | CycleCompleted int
  | CycleFailed error
  | CannotRebalance "string option"
  | NoRebalancingNeeded
  | DeviationTooSmall rat
  | RebalanceSkipped "string option"
  | RebalanceProposed string string
  | RebalanceExecuted
  | RebalancePending
  | RebalanceCheckFailed error

text \<open>The Prometheus metrics of \<^verbatim>\<open>orchestrator.py\<close>.\<close>

datatype metric =
    TVL_GAUGE rat
  | RISK_SCORE int
  | CYCLE_DURATION int
  | CYCLE_COUNTER string
  | REBALANCE_COUNTER string

datatype event =
    Log level message
  | Metric metric
  | UtcNow
  | Sleep nat
  | FetchVaultData
  | GetRecentSignals
  | AnalyzeRisk
  | MessagesCreate VaultData
  | LogAnalysis RiskAnalysis "string option" "string option" "error option"
  | StrategyCount
  | Strategies nat
  | SendEmergencyUnwind string string
  | WaitReceipt string
  | UpdateRiskOracle RiskAnalysis
  | PublishRiskUpdate RiskAnalysis
  | CheckAndExecuteRebalance
  | LastRebalanceTime
  | TotalAssets
  | GetOptimalGasPrice
  | LogProposal RebalanceProposal "error option"
  | SubmitProposal RebalanceProposal
  | ExecuteProposal nat

type_synonym trace = "event list"

text \<open>
  The answers of the world.
  \<^item> \<open>utc_offset\<close>: the host's local time, in seconds east of UTC.
  \<^item> \<open>utcnow\<close>: \<^verbatim>\<open>datetime.utcnow()\<close>.
  \<^item> \<open>json_loads\<close>: \<^verbatim>\<open>json.loads\<close>, a pure function of its argument.
  \<^item> \<open>fetch_vault_data\<close>: \<^verbatim>\<open>RiskAgent.fetch_vault_data\<close>, reads of the chain.
  \<^item> \<open>get_recent_signals\<close>: \<^verbatim>\<open>ResearchAgent.get_recent_signals(limit=20)\<close>.
  \<^item> \<open>messages_create\<close>: the assessor, \<^verbatim>\<open>client.messages.create(...)\<close>, answering
    with \<^verbatim>\<open>message.content[0].text\<close>.
  \<^item> \<open>db_execute\<close>: the INSERT of \<^verbatim>\<open>_log_analysis\<close> and \<^verbatim>\<open>_log_proposal\<close>; \<open>None\<close> is
    success.
  \<^item> \<open>strategy_count\<close>, \<open>strategies\<close>, \<open>last_rebalance_time\<close>, \<open>total_assets\<close>: the calls of
    the vault contract of these names.
  \<^item> \<open>send_emergency_unwind\<close>: lines 352-367 of \<^verbatim>\<open>risk_agent.py\<close>, the nonce, the
    building, signing and sending of the \<^verbatim>\<open>emergencyUnwind(address, reason)\<close>
    transaction; the answer is the transaction hash.
  \<^item> \<open>wait_receipt\<close>: \<^verbatim>\<open>wait_for_transaction_receipt\<close>; the answer is
    \<^verbatim>\<open>receipt.status\<close>.
  \<^item> \<open>get_optimal_gas_price\<close>: \<^verbatim>\<open>ExecutionAgent.get_optimal_gas_price\<close>.
  \<^item> \<open>submit_proposal_onchain\<close>, \<open>execute_approved_proposal\<close>: the methods of
    \<^verbatim>\<open>ExecutionAgent\<close> of these names, which catch every exception themselves.
\<close>

record world =
  utc_offset :: int
  utcnow :: "trace \<Rightarrow> int"
  json_loads :: "string \<Rightarrow> error + result_dict"
  fetch_vault_data :: "trace \<Rightarrow> error + VaultData"
  get_recent_signals :: "trace \<Rightarrow> error + string list"
  messages_create :: "trace \<Rightarrow> VaultData \<Rightarrow> error + string"
  db_execute :: "trace \<Rightarrow> error option"
  strategy_count :: "trace \<Rightarrow> error + nat"
  strategies :: "trace \<Rightarrow> nat \<Rightarrow> error + strategy_tuple"
  last_rebalance_time :: "trace \<Rightarrow> error + int"
  total_assets :: "trace \<Rightarrow> error + nat"
  send_emergency_unwind :: "trace \<Rightarrow> string \<Rightarrow> string \<Rightarrow> error + string"
  wait_receipt :: "trace \<Rightarrow> string \<Rightarrow> error + int"
  get_optimal_gas_price :: "trace \<Rightarrow> error + rat"
  submit_proposal_onchain :: "trace \<Rightarrow> RebalanceProposal \<Rightarrow> nat option"
  execute_approved_proposal :: "trace \<Rightarrow> nat \<Rightarrow> bool"

section \<open>Execution agent (\<^verbatim>\<open>execution_agent.py\<close>)\<close>

text \<open>The class constants of \<^verbatim>\<open>ExecutionAgent\<close>.\<close>

definition REBALANCE_COOLDOWN :: int where
  "REBALANCE_COOLDOWN = 7 * 86400 * 1000000"

definition MAX_SINGLE_REBALANCE_BPS :: rat where
  "MAX_SINGLE_REBALANCE_BPS = 1500"

definition MIN_IDLE_BUFFER_BPS :: rat where
  "MIN_IDLE_BUFFER_BPS = 500"

definition BASIS_POINTS :: rat where
  "BASIS_POINTS = 10000"

subsection \<open>\<^verbatim>\<open>can_rebalance\<close>\<close>

text \<open>
  The range of a naive \<^verbatim>\<open>datetime\<close>: 0001-01-01 00:00:00 to
  9999-12-31 23:59:59.999999, in microseconds.
\<close>

definition DATETIME_MIN :: int where
  "DATETIME_MIN = - 62135596800000000"

definition DATETIME_MAX :: int where
  "DATETIME_MAX = 253402300799999999"

text \<open>
  \<^verbatim>\<open>datetime.fromtimestamp(ts)\<close> without a \<^verbatim>\<open>tz\<close> argument: the naive LOCAL time of
  the POSIX timestamp \<open>ts\<close> (seconds), on a host whose local time is \<open>offset\<close>
  seconds east of UTC. It raises outside the range of \<^verbatim>\<open>datetime\<close>.
\<close>

definition fromtimestamp :: "int \<Rightarrow> int \<Rightarrow> error + int" where
  "fromtimestamp offset ts =
     (let local = (ts + offset) * 1000000
      in if local < DATETIME_MIN \<or> DATETIME_MAX < local then Inl OverflowError
         else Inr local)"

text \<open>\<^verbatim>\<open>datetime + timedelta\<close> raises \<^verbatim>\<open>OverflowError\<close> outside the range.\<close>

definition datetime_add :: "int \<Rightarrow> int \<Rightarrow> error + int" where
  "datetime_add dt td =
     (if dt + td < DATETIME_MIN \<or> DATETIME_MAX < dt + td then Inl OverflowError
      else Inr (dt + td))"

text \<open>The normalised fields \<^verbatim>\<open>.days\<close> and \<^verbatim>\<open>.seconds\<close> of a \<^verbatim>\<open>timedelta\<close>.\<close>

definition td_days :: "int \<Rightarrow> int" where
  "td_days td = td div (86400 * 1000000)"

definition td_seconds :: "int \<Rightarrow> int" where
  "td_seconds td = (td mod (86400 * 1000000)) div 1000000"

text \<open>
  \<^verbatim>\<open>can_rebalance\<close> (lines 106-115). \<^verbatim>\<open>last_dt\<close> is a naive local time, the two
  readings of \<^verbatim>\<open>datetime.utcnow()\<close> are naive UTC times; the second is read only in
  the branch of the active cooldown.
\<close>

definition can_rebalance :: "world \<Rightarrow> trace \<Rightarrow> (error + bool \<times> string option) \<times> trace" where
  "can_rebalance w h =
     (case last_rebalance_time w h of
        Inl e \<Rightarrow> (Inl e, h @ [LastRebalanceTime])
      | Inr last_rebalance \<Rightarrow>
          (case fromtimestamp (utc_offset w) last_rebalance of
             Inl e \<Rightarrow> (Inl e, h @ [LastRebalanceTime])
           | Inr last_dt \<Rightarrow>
               (case datetime_add last_dt REBALANCE_COOLDOWN of
                  Inl e \<Rightarrow> (Inl e, h @ [LastRebalanceTime, UtcNow])
                | Inr deadline \<Rightarrow>
                    if utcnow w (h @ [LastRebalanceTime]) < deadline then
                      (let time_remaining = deadline - utcnow w (h @ [LastRebalanceTime, UtcNow])
                       in (Inr (False, Some (''Cooldown active. ''
                                  @ str_int (td_days time_remaining) @ ''d ''
                                  @ str_int (td_seconds time_remaining div 3600)
                                  @ ''h remaining'')),
                           h @ [LastRebalanceTime, UtcNow, UtcNow]))
                    else (Inr (True, None), h @ [LastRebalanceTime, UtcNow]))))"

subsection \<open>\<^verbatim>\<open>get_current_allocations\<close>\<close>




subsection \<open>\<^verbatim>\<open>calculate_optimal_allocation\<close>\<close>

text \<open>
  The first loop (lines 164-172): the state is the dict \<open>weights\<close> and the running
  \<open>total_weight\<close>. The value added to \<open>total_weight\<close> is the one just stored under
  \<^verbatim>\<open>alloc.name\<close>.
\<close>

fun weights_loop ::
  "StrategyAllocation list \<Rightarrow> (string \<times> rat) list \<times> rat \<Rightarrow> (string \<times> rat) list \<times> rat" where
  "weights_loop [] st = st"
| "weights_loop (alloc # rest) (weights, total_weight) =
     (let apy_factor = current_apy alloc;
          util_factor = 1 - utilization alloc;
          weight = apy_factor * util_factor;
          stored = min weight (max_allocation alloc)
      in weights_loop rest (AList.update (name alloc) stored weights, total_weight + stored))"

definition calculate_optimal_allocation :: "StrategyAllocation list \<Rightarrow> (string \<times> rat) list" where
  "calculate_optimal_allocation allocations =
     (let (weights, total_weight) = weights_loop allocations ([], 0);
          available = 1 - MIN_IDLE_BUFFER_BPS / BASIS_POINTS
      in map (\<lambda>(nm, weight).
                (nm, if total_weight > 0 then (weight / total_weight) * available
                     else available / of_nat (length weights)))
             weights)"

subsection \<open>\<^verbatim>\<open>propose_rebalance\<close>: selection and amount\<close>

text \<open>
  The selection loop (lines 203-216). The state is
  \<open>(max_deviation, from_strat, to_strat)\<close>; \<^verbatim>\<open>optimal.get(name, Decimal(0))\<close> is the
  lookup with default 0.
\<close>

fun select_loop ::
  "(string \<times> rat) list \<Rightarrow> StrategyAllocation list
   \<Rightarrow> rat \<times> StrategyAllocation option \<times> StrategyAllocation option
   \<Rightarrow> rat \<times> StrategyAllocation option \<times> StrategyAllocation option" where
  "select_loop optimal [] st = st"
| "select_loop optimal (alloc # rest) (max_deviation, from_strat, to_strat) =
     (let current = current_allocation alloc;
          target = (case map_of optimal (name alloc) of Some t \<Rightarrow> t | None \<Rightarrow> 0);
          deviation = current - target
      in if deviation > max_deviation then
           select_loop optimal rest (deviation, Some alloc, to_strat)
         else if deviation < - max_deviation then
           select_loop optimal rest (max_deviation, from_strat, Some alloc)
         else select_loop optimal rest (max_deviation, from_strat, to_strat))"

definition select_strategies ::
  "StrategyAllocation list \<Rightarrow> rat \<times> StrategyAllocation option \<times> StrategyAllocation option" where
  "select_strategies allocations =
     select_loop (calculate_optimal_allocation allocations) allocations (0, None, None)"

text \<open>
  The amount (lines 230-240), for the selected pair, its \<open>max_deviation\<close> and the
  \<open>tvl\<close> read from the vault. \<open>Inr None\<close> is the \<^verbatim>\<open>return None\<close> of line 240; the
  division by a zero \<open>tvl\<close> at line 235 raises.
\<close>

definition rebalance_amount ::
  "StrategyAllocation \<Rightarrow> StrategyAllocation \<Rightarrow> rat \<Rightarrow> rat \<Rightarrow> error + rat option" where
  "rebalance_amount from_strat to_strat max_deviation tvl =
     (let max_amount = tvl * MAX_SINGLE_REBALANCE_BPS / BASIS_POINTS;
          amount0 = min (total_deposited from_strat * max_deviation) max_amount
      in if tvl = 0 then Inl DivisionByZero
         else
           (let target_new_alloc = (total_deposited to_strat + amount0) / tvl;
                amount1 = (if target_new_alloc > max_allocation to_strat
                           then (max_allocation to_strat * tvl) - total_deposited to_strat
                           else amount0)
            in if amount1 \<le> 0 then Inr None else Inr (Some amount1)))"


section \<open>Risk agent (\<^verbatim>\<open>risk_agent.py\<close>)\<close>

subsection \<open>The JSON of the answer\<close>

text \<open>\<^verbatim>\<open>str.find\<close> and \<^verbatim>\<open>str.rfind\<close> of one character: the lowest and the highest
  index, or \<open>-1\<close>.\<close>

fun find_char :: "char \<Rightarrow> string \<Rightarrow> int" where
  "find_char c [] = - 1"
| "find_char c (x # xs) =
     (if x = c then 0
      else (let r = find_char c xs in if r < 0 then - 1 else r + 1))"

definition rfind_char :: "char \<Rightarrow> string \<Rightarrow> int" where
  "rfind_char c s =
     (let r = find_char c (rev s) in if r < 0 then - 1 else int (length s) - 1 - r)"

text \<open>The slice \<^verbatim>\<open>s[i:j]\<close>: a negative index counts from the end, and both are
  clipped to the string.\<close>

definition py_slice :: "string \<Rightarrow> int \<Rightarrow> int \<Rightarrow> string" where
  "py_slice s i j =
     (let n = int (length s);
          lo = (if i < 0 then max (i + n) 0 else min i n);
          hi = (if j < 0 then max (j + n) 0 else min j n)
      in take (nat (hi - lo)) (drop (nat lo) s))"

text \<open>Lines 249-251.\<close>

definition extract_json :: "string \<Rightarrow> string" where
  "extract_json response_text =
     (let json_start = find_char CHR ''{'' response_text;
          json_end = rfind_char CHR ''}'' response_text + 1
      in py_slice response_text json_start json_end)"

text \<open>The default dict of lines 256-271, for the caught exception \<open>e\<close>.\<close>

definition parse_failure_result :: "error \<Rightarrow> result_dict" where
  "parse_failure_result e =
     \<lparr>r_composite_score = Some 7000,
      r_protocol_risk = Some 7000,
      r_liquidity_risk = Some 7000,
      r_utilization_risk = Some 7000,
      r_governance_risk = Some 7000,
      r_oracle_risk = Some 7000,
      r_risk_level = Some ''HIGH_RISK'',
      r_recommended_action = Some ''Manual review required - parse failure'',
      r_action_urgency = Some ''HIGH'',
      r_reasoning = Some (''Failed to parse AI response: '' @ str_error e),
      r_strategy_risks = Some [],
      r_alerts = Some [''Parse failure - manual review required''],
      r_should_emergency_unwind = Some False,
      r_unwind_strategies = Some []\<rparr>"

text \<open>Lines 247-271: the \<^verbatim>\<open>try\<close> around \<^verbatim>\<open>json.loads\<close> catches
  \<^verbatim>\<open>json.JSONDecodeError\<close> and \<^verbatim>\<open>ValueError\<close>; any other exception leaves
  \<^verbatim>\<open>analyze_risk\<close>.\<close>

definition parse_response :: "world \<Rightarrow> string \<Rightarrow> trace \<Rightarrow> (error + result_dict) \<times> trace" where
  "parse_response w response_text h =
     (case json_loads w (extract_json response_text) of
        Inr result \<Rightarrow> (Inr result, h)
      | Inl (JSONDecodeError m) \<Rightarrow>
          (Inr (parse_failure_result (JSONDecodeError m)), h @ [Log ERROR (ParseFailed m)])
      | Inl (ValueError m) \<Rightarrow>
          (Inr (parse_failure_result (ValueError m)), h @ [Log ERROR (ParseFailed m)])
      | Inl e \<Rightarrow> (Inl e, h))"

text \<open>\<^verbatim>\<open>result[key]\<close> raises \<^verbatim>\<open>KeyError\<close> for an absent key.\<close>

definition subscript :: "string \<Rightarrow> 'a option \<Rightarrow> error + 'a" where
  "subscript key v = (case v of None \<Rightarrow> Inl (KeyError key) | Some x \<Rightarrow> Inr x)"

definition bind_err :: "error + 'a \<Rightarrow> ('a \<Rightarrow> error + 'b) \<Rightarrow> error + 'b" where
  "bind_err m f = (case m of Inl e \<Rightarrow> Inl e | Inr x \<Rightarrow> f x)"

text \<open>Lines 273-289: the keys are read in the order of the keyword arguments;
  \<^verbatim>\<open>unwind_strategies\<close> alone has a default.\<close>

definition make_analysis :: "int \<Rightarrow> result_dict \<Rightarrow> error + RiskAnalysis" where
  "make_analysis now result =
     bind_err (subscript ''composite_score'' (r_composite_score result)) (\<lambda>cs.
     bind_err (subscript ''protocol_risk'' (r_protocol_risk result)) (\<lambda>pr.
     bind_err (subscript ''liquidity_risk'' (r_liquidity_risk result)) (\<lambda>lr.
     bind_err (subscript ''utilization_risk'' (r_utilization_risk result)) (\<lambda>ur.
     bind_err (subscript ''governance_risk'' (r_governance_risk result)) (\<lambda>gr.
     bind_err (subscript ''oracle_risk'' (r_oracle_risk result)) (\<lambda>orr.
     bind_err (subscript ''risk_level'' (r_risk_level result)) (\<lambda>rl.
     bind_err (subscript ''recommended_action'' (r_recommended_action result)) (\<lambda>ra.
     bind_err (subscript ''action_urgency'' (r_action_urgency result)) (\<lambda>au.
     bind_err (subscript ''reasoning'' (r_reasoning result)) (\<lambda>re.
     bind_err (subscript ''strategy_risks'' (r_strategy_risks result)) (\<lambda>sr.
     bind_err (subscript ''alerts'' (r_alerts result)) (\<lambda>al.
     bind_err (subscript ''should_emergency_unwind'' (r_should_emergency_unwind result)) (\<lambda>seu.
       Inr \<lparr>timestamp = now,
            composite_score = cs,
            protocol_risk = pr,
            liquidity_risk = lr,
            utilization_risk = ur,
            governance_risk = gr,
            oracle_risk = orr,
            risk_level = rl,
            recommended_action = ra,
            action_urgency = au,
            reasoning = re,
            strategy_risks = sr,
            alerts = al,
            should_emergency_unwind = seu,
            unwind_strategies =
              (case r_unwind_strategies result of None \<Rightarrow> [] | Some us \<Rightarrow> us)\<rparr>)))))))))))))"

subsection \<open>\<^verbatim>\<open>_log_analysis\<close>\<close>

definition log_analysis ::
  "world \<Rightarrow> RiskAnalysis \<Rightarrow> string option \<Rightarrow> string option \<Rightarrow> trace \<Rightarrow> error option \<times> trace" where
  "log_analysis w analysis action_taken tx_hash h =
     (db_execute w h, h @ [LogAnalysis analysis action_taken tx_hash (db_execute w h)])"

subsection \<open>\<^verbatim>\<open>_execute_emergency_unwind\<close>\<close>

text \<open>Lines 341-345: the scan of the vault's strategies for the name.\<close>

fun find_strategy ::
  "world \<Rightarrow> string \<Rightarrow> nat list \<Rightarrow> trace \<Rightarrow> (error + string option) \<times> trace" where
  "find_strategy w strategy_name [] h = (Inr None, h)"
| "find_strategy w strategy_name (i # rest) h =
     (case strategies w h i of
        Inl e \<Rightarrow> (Inl e, h @ [Strategies i])
      | Inr strat \<Rightarrow>
          if st_name strat = strategy_name then (Inr (Some (st_address strat)), h @ [Strategies i])
          else find_strategy w strategy_name rest (h @ [Strategies i]))"

text \<open>
  The body of the \<^verbatim>\<open>try\<close> of one iteration (lines 337-381). \<open>Inl e\<close> is an exception
  raised inside it; \<open>Inr ()\<close> is its normal end or its \<^verbatim>\<open>continue\<close>. An address that is
  \<^verbatim>\<open>None\<close> or empty is "not found" (\<^verbatim>\<open>if not strategy_addr\<close>).
\<close>

definition unwind_strategy ::
  "world \<Rightarrow> RiskAnalysis \<Rightarrow> string \<Rightarrow> trace \<Rightarrow> (error + unit) \<times> trace" where
  "unwind_strategy w analysis strategy_name h =
     (case strategy_count w h of
        Inl e \<Rightarrow> (Inl e, h @ [StrategyCount])
      | Inr cnt \<Rightarrow>
          (case find_strategy w strategy_name [0..<cnt] (h @ [StrategyCount]) of
             (Inl e, h1) \<Rightarrow> (Inl e, h1)
           | (Inr None, h1) \<Rightarrow> (Inr (), h1 @ [Log ERROR (StrategyNotFound strategy_name)])
           | (Inr (Some strategy_addr), h1) \<Rightarrow>
               if strategy_addr = [] then
                 (Inr (), h1 @ [Log ERROR (StrategyNotFound strategy_name)])
               else
                 (let reason = ''Risk Agent: '' @ risk_level analysis @ '' - ''
                                 @ take 100 (reasoning analysis)
                  in case send_emergency_unwind w h1 strategy_addr reason of
                       Inl e \<Rightarrow> (Inl e, h1 @ [SendEmergencyUnwind strategy_addr reason])
                     | Inr tx_hash \<Rightarrow>
                         (let h2 = h1 @ [SendEmergencyUnwind strategy_addr reason,
                                         Log INFO (UnwindTxSent tx_hash)]
                          in case wait_receipt w h2 tx_hash of
                               Inl e \<Rightarrow> (Inl e, h2 @ [WaitReceipt tx_hash])
                             | Inr status \<Rightarrow>
                                 (case log_analysis w analysis
                                         (Some (''Emergency unwind '' @ strategy_name))
                                         (Some tx_hash) (h2 @ [WaitReceipt tx_hash]) of
                                    (Some e, h3) \<Rightarrow> (Inl e, h3)
                                  | (None, h3) \<Rightarrow>
                                      (Inr (), h3 @ [Log INFO (UnwindCompleted status)]))))))"

text \<open>The loop of lines 335-384: \<^verbatim>\<open>except Exception\<close> logs the failure of one
  iteration, and the loop goes on.\<close>

fun unwind_loop :: "world \<Rightarrow> RiskAnalysis \<Rightarrow> string list \<Rightarrow> trace \<Rightarrow> trace" where
  "unwind_loop w analysis [] h = h"
| "unwind_loop w analysis (strategy_name # rest) h =
     (case unwind_strategy w analysis strategy_name h of
        (Inl e, h1) \<Rightarrow>
          unwind_loop w analysis rest (h1 @ [Log ERROR (UnwindFailed strategy_name e)])
      | (Inr u, h1) \<Rightarrow> unwind_loop w analysis rest h1)"

definition execute_emergency_unwind :: "world \<Rightarrow> RiskAnalysis \<Rightarrow> trace \<Rightarrow> trace" where
  "execute_emergency_unwind w analysis h =
     unwind_loop w analysis (unwind_strategies analysis)
       (h @ [Log WARNING (ExecutingEmergencyUnwind (composite_score analysis))])"

subsection \<open>\<^verbatim>\<open>analyze_risk\<close>\<close>

text \<open>
  Lines 204-298. The prompt's text is a function of \<open>vault_data\<close>, so the assessor is
  given \<open>vault_data\<close> itself. The warning of line 333 is the first action of the emergency
  unwind, and of nothing else: it marks the branch of line 296.
\<close>

definition analyze_risk ::
  "world \<Rightarrow> VaultData option \<Rightarrow> trace \<Rightarrow> (error + RiskAnalysis) \<times> trace" where
  "analyze_risk w vault_data_opt h =
     (case (case vault_data_opt of
              Some vd \<Rightarrow> (Inr vd, h)
            | None \<Rightarrow> (fetch_vault_data w h, h @ [FetchVaultData])) of
        (Inl e, h1) \<Rightarrow> (Inl e, h1)
      | (Inr vault_data, h1) \<Rightarrow>
          (case messages_create w h1 vault_data of
             Inl e \<Rightarrow> (Inl e, h1 @ [MessagesCreate vault_data])
           | Inr response_text \<Rightarrow>
               (case parse_response w response_text (h1 @ [MessagesCreate vault_data]) of
                  (Inl e, h2) \<Rightarrow> (Inl e, h2)
                | (Inr result, h2) \<Rightarrow>
                    (case make_analysis (utcnow w h2) result of
                       Inl e \<Rightarrow> (Inl e, h2 @ [UtcNow])
                     | Inr analysis \<Rightarrow>
                         (case log_analysis w analysis None None (h2 @ [UtcNow]) of
                            (Some e, h3) \<Rightarrow> (Inl e, h3)
                          | (None, h3) \<Rightarrow>
                              if composite_score analysis \<ge> 8000 \<or> should_emergency_unwind analysis
                              then (Inr analysis, execute_emergency_unwind w analysis h3)
                              else (Inr analysis, h3))))))"

section \<open>Orchestrator (\<^verbatim>\<open>orchestrator.py\<close>)\<close>

definition MAX_RETRIES :: nat where
  "MAX_RETRIES = 3"

definition RETRY_BACKOFF_BASE :: nat where
  "RETRY_BACKOFF_BASE = 2"

subsection \<open>\<^verbatim>\<open>_run_risk_analysis_with_retry\<close>\<close>

text \<open>The \<^verbatim>\<open>for\<close> loop of lines 225-232 either returns the analysis from inside, or
  ends with the last exception (\<^verbatim>\<open>None\<close> when it never ran).\<close>

datatype loop_exit = Returned RiskAnalysis | Exhausted "error option"

fun retry_loop ::
  "world \<Rightarrow> VaultData \<Rightarrow> nat list \<Rightarrow> error option \<Rightarrow> trace \<Rightarrow> loop_exit \<times> trace" where
  "retry_loop w vault_data [] last_error h = (Exhausted last_error, h)"
| "retry_loop w vault_data (attempt # rest) last_error h =
     (case analyze_risk w (Some vault_data) (h @ [AnalyzeRisk]) of
        (Inr analysis, h1) \<Rightarrow> (Returned analysis, h1)
      | (Inl e, h1) \<Rightarrow>
          (let wait_time = RETRY_BACKOFF_BASE ^ attempt
           in retry_loop w vault_data rest (Some e)
                (h1 @ [Log WARNING (AttemptFailed (attempt + 1) e wait_time), Sleep wait_time])))"

text \<open>Lines 217-253. The argument \<open>signals\<close> is not used by the source either.\<close>

definition run_risk_analysis_with_retry ::
  "world \<Rightarrow> VaultData \<Rightarrow> string list \<Rightarrow> trace \<Rightarrow> RiskAnalysis \<times> trace" where
  "run_risk_analysis_with_retry w vault_data signals h =
     (case retry_loop w vault_data [0..<MAX_RETRIES] None h of
        (Returned analysis, h1) \<Rightarrow> (analysis, h1)
      | (Exhausted last_error, h1) \<Rightarrow>
          (let h2 = h1 @ [Log ERROR (AnalysisFailed MAX_RETRIES last_error)]
           in (\<lparr>timestamp = utcnow w h2,
                composite_score = 7500,
                protocol_risk = 7500,
                liquidity_risk = 7500,
                utilization_risk = 7500,
                governance_risk = 7500,
                oracle_risk = 7500,
                risk_level = ''HIGH_RISK'',
                recommended_action = ''Manual review required - analysis failed'',
                action_urgency = ''HIGH'',
                reasoning = ''Analysis failed: ''
                  @ (case last_error of None \<Rightarrow> ''None'' | Some e \<Rightarrow> str_error e),
                strategy_risks = [],
                alerts = [''Risk analysis failure - conservative score applied''],
                should_emergency_unwind = False,
                unwind_strategies = []\<rparr>,
               h2 @ [UtcNow])))"

subsection \<open>\<^verbatim>\<open>_check_and_execute_rebalance\<close>\<close>



subsection \<open>\<^verbatim>\<open>_run_monitoring_cycle\<close>\<close>


section \<open>Observations on a trace\<close>

text \<open>The events that the risk agent can add to the trace.\<close>

definition risk_event :: "event \<Rightarrow> bool" where
  "risk_event ev =
     (case ev of
        Log lvl msg \<Rightarrow> True
      | UtcNow \<Rightarrow> True
      | FetchVaultData \<Rightarrow> True
      | MessagesCreate vd \<Rightarrow> True
      | LogAnalysis a act tx res \<Rightarrow> True
      | StrategyCount \<Rightarrow> True
      | Strategies i \<Rightarrow> True
      | SendEmergencyUnwind addr reason \<Rightarrow> True
      | WaitReceipt tx \<Rightarrow> True
      | _ \<Rightarrow> False)"

text \<open>The attempts and the sleeps of the retry loop.\<close>

definition retry_event :: "event \<Rightarrow> bool" where
  "retry_event ev = (case ev of AnalyzeRisk \<Rightarrow> True | Sleep n \<Rightarrow> True | _ \<Rightarrow> False)"

definition assess_event :: "event \<Rightarrow> bool" where
  "assess_event ev = (risk_event ev \<or> retry_event ev)"

text \<open>
  What the trace tells of one flagged strategy: the row of \<^verbatim>\<open>_log_analysis\<close> with the
  action \<^verbatim>\<open>Emergency unwind <name>\<close> that the database accepted, after the receipt; or
  one of the two error messages of the loop.
\<close>

datatype unwind_outcome = Unwound string | NotFound | Failed error

definition outcome :: "event \<Rightarrow> (string \<times> unwind_outcome) option" where
  "outcome ev =
     (case ev of
        Log lvl msg \<Rightarrow>
          (case msg of
             StrategyNotFound n \<Rightarrow> Some (n, NotFound)
           | UnwindFailed n e \<Rightarrow> Some (n, Failed e)
           | _ \<Rightarrow> None)
      | LogAnalysis a act tx res \<Rightarrow>
          (case (act, tx, res) of
             (Some action, Some tx_hash, None) \<Rightarrow>
               if take 17 action = ''Emergency unwind ''
               then Some (drop 17 action, Unwound tx_hash) else None
           | _ \<Rightarrow> None)
      | _ \<Rightarrow> None)"

text \<open>The warning of line 333, the first action of \<^verbatim>\<open>_execute_emergency_unwind\<close>.\<close>

definition is_unwind_warning :: "event \<Rightarrow> bool" where
  "is_unwind_warning ev =
     (case ev of
        Log lvl msg \<Rightarrow> (case msg of ExecutingEmergencyUnwind score \<Rightarrow> True | _ \<Rightarrow> False)
      | _ \<Rightarrow> False)"

definition unwind_invoked :: "trace \<Rightarrow> bool" where
  "unwind_invoked es = list_ex is_unwind_warning es"

text \<open>
  The events of the rebalance consideration: the call of
  \<^verbatim>\<open>_check_and_execute_rebalance\<close>, the reading of the cooldown, the reads and the row
  of the proposer, the submission, the execution and the rebalance counter.
\<close>

definition rebalance_event :: "event \<Rightarrow> bool" where
  "rebalance_event ev =
     (case ev of
        CheckAndExecuteRebalance \<Rightarrow> True
      | LastRebalanceTime \<Rightarrow> True
      | TotalAssets \<Rightarrow> True
      | GetOptimalGasPrice \<Rightarrow> True
      | LogProposal p res \<Rightarrow> True
      | SubmitProposal p \<Rightarrow> True
      | ExecuteProposal i \<Rightarrow> True
      | Metric m \<Rightarrow> (case m of REBALANCE_COUNTER s \<Rightarrow> True | _ \<Rightarrow> False)
      | _ \<Rightarrow> False)"

text \<open>The events that the execution agent and the rebalance check can add.\<close>

definition exec_event :: "event \<Rightarrow> bool" where
  "exec_event ev =
     (case ev of
        PublishRiskUpdate a \<Rightarrow> False
      | UpdateRiskOracle a \<Rightarrow> False
      | _ \<Rightarrow> True)"

text \<open>The analysis that a cycle publishes.\<close>

definition published :: "event \<Rightarrow> RiskAnalysis option" where
  "published ev = (case ev of PublishRiskUpdate a \<Rightarrow> Some a | _ \<Rightarrow> None)"

section \<open>Concrete inputs\<close>

text \<open>A strategy as \<^verbatim>\<open>get_current_allocations\<close> builds it, by its name, current and
  maximal allocation, deposit, APY and utilization.\<close>

definition example_strategy ::
  "string \<Rightarrow> rat \<Rightarrow> rat \<Rightarrow> rat \<Rightarrow> rat \<Rightarrow> rat \<Rightarrow> StrategyAllocation" where
  "example_strategy nm cur mx dep apy ut =
     \<lparr>address = ''0x'' @ nm, name = nm, current_allocation = cur, target_allocation = 0,
      max_allocation = mx, total_deposited = dep, current_apy = apy, utilization = ut\<rparr>"

text \<open>Three strategies with the APY and utilization of the source: A is over its optimum
  of 19/60, B and C are under it, B further than C.\<close>

definition over_A :: StrategyAllocation where
  "over_A = example_strategy ''A'' (55/100) (60/100) 5500000 (5/100) (75/100)"

definition under_B :: StrategyAllocation where
  "under_B = example_strategy ''B'' 0 (60/100) 0 (5/100) (75/100)"

definition under_C :: StrategyAllocation where
  "under_C = example_strategy ''C'' (5/100) (60/100) 500000 (5/100) (75/100)"

text \<open>The pair of the boundedness example: A holds 4,000,000 at 4000 bps, B holds
  1,000,000 at 1000 bps under a cap of 2000 bps.\<close>

definition spec_A :: StrategyAllocation where
  "spec_A = example_strategy ''A'' (4000/10000) (5000/10000) 4000000 (5/100) (75/100)"

definition spec_B :: StrategyAllocation where
  "spec_B = example_strategy ''B'' (1000/10000) (2000/10000) 1000000 (5/100) (75/100)"

text \<open>A is capped at 3000 bps, B at 8000 bps: the caps leave room for 9500 bps.\<close>

definition capped_A :: StrategyAllocation where
  "capped_A = example_strategy ''A'' (30/100) (30/100) 3000000 (10/100) (50/100)"

definition roomy_B :: StrategyAllocation where
  "roomy_B = example_strategy ''B'' (30/100) (80/100) 3000000 (1/100) (50/100)"

text \<open>Two fully utilized strategies: every weight is zero.\<close>

definition full_A :: StrategyAllocation where
  "full_A = example_strategy ''A'' (30/100) (60/100) 3000000 (5/100) 1"

definition full_B :: StrategyAllocation where
  "full_B = example_strategy ''B'' (30/100) (60/100) 3000000 (5/100) 1"

text \<open>Two strategies at different addresses under one name.\<close>

definition twin_1 :: StrategyAllocation where
  "twin_1 = example_strategy ''A'' (30/100) (50/100) 3000000 (5/100) (75/100)"

definition twin_2 :: StrategyAllocation where
  "twin_2 = (example_strategy ''A'' (20/100) (50/100) 2000000 (5/100) (75/100))
              \<lparr>address := ''0xA2''\<rparr>"

text \<open>A world in which nothing happens: the assessor and the chain writes are
  unreachable, the vault has no strategy, the database accepts every row.\<close>

definition quiet_world :: world where
  "quiet_world =
     \<lparr>utc_offset = 0,
      utcnow = (\<lambda>h. 0),
      json_loads = (\<lambda>s. Inl (JSONDecodeError ''Expecting value'')),
      fetch_vault_data = (\<lambda>h. Inl (Failure ''unreachable'')),
      get_recent_signals = (\<lambda>h. Inr []),
      messages_create = (\<lambda>h vd. Inl (Failure ''unreachable'')),
      db_execute = (\<lambda>h. None),
      strategy_count = (\<lambda>h. Inr 0),
      strategies = (\<lambda>h i. Inl (Failure ''no such strategy'')),
      last_rebalance_time = (\<lambda>h. Inr 0),
      total_assets = (\<lambda>h. Inr 0),
      send_emergency_unwind = (\<lambda>h a r. Inl (Failure ''unreachable'')),
      wait_receipt = (\<lambda>h t. Inr 1),
      get_optimal_gas_price = (\<lambda>h. Inr 30),
      submit_proposal_onchain = (\<lambda>h p. None),
      execute_approved_proposal = (\<lambda>h i. False)\<rparr>"

text \<open>A host five hours west of UTC, one second before the end of the cooldown of a
  rebalance at the POSIX time 1700000000.\<close>

definition new_york_world :: world where
  "new_york_world =
     quiet_world\<lparr>utc_offset := - 18000,
                 last_rebalance_time := (\<lambda>h. Inr 1700000000),
                 utcnow := (\<lambda>h. (1700000000 + 7 * 86400 - 1) * 1000000)\<rparr>"

text \<open>A vault of three strategies A, B, C, at 5500, 0 and 500 bps under caps of
  6000 bps, holding 5,500,000, 0 and 500,000 USDC.\<close>

definition example_tuple :: "string \<Rightarrow> nat \<Rightarrow> nat \<Rightarrow> nat \<Rightarrow> strategy_tuple" where
  "example_tuple nm alloc mx dep =
     \<lparr>st_address = ''0x'' @ nm, st_name = nm, st_allocation = alloc, st_maxAllocation = mx,
      st_targetAllocation = 0, st_isActive = True, st_totalDeposited = dep,
      st_lastHarvestTime = 0\<rparr>"

definition vault_ABC :: "nat \<Rightarrow> error + strategy_tuple" where
  "vault_ABC i =
     (if i = 0 then Inr (example_tuple ''A'' 5500 6000 5500000000000)
      else if i = 1 then Inr (example_tuple ''B'' 0 6000 0)
      else if i = 2 then Inr (example_tuple ''C'' 500 6000 500000000000)
      else Inl (Failure ''no such strategy''))"

definition example_vault_data :: VaultData where
  "example_vault_data =
     \<lparr>vd_tvl = 10000000, vd_allocations = [], vd_utilization_rates = [], vd_strategy_apys = [],
      vd_current_risk_score = 0, vd_idle_buffer = 0, vd_last_rebalance = 0,
      vd_pending_withdrawals = 0\<rparr>"

text \<open>An answer of the assessor, as the parsed dict and as the analysis made of it at
  the time 0.\<close>

definition example_result :: "int \<Rightarrow> string \<Rightarrow> bool \<Rightarrow> string list \<Rightarrow> result_dict" where
  "example_result score lvl unwind strats =
     \<lparr>r_composite_score = Some score, r_protocol_risk = Some score,
      r_liquidity_risk = Some score, r_utilization_risk = Some score,
      r_governance_risk = Some score, r_oracle_risk = Some score,
      r_risk_level = Some lvl, r_recommended_action = Some ''none'',
      r_action_urgency = Some ''LOW'', r_reasoning = Some ''example'',
      r_strategy_risks = Some [], r_alerts = Some [],
      r_should_emergency_unwind = Some unwind, r_unwind_strategies = Some strats\<rparr>"

definition example_analysis :: "int \<Rightarrow> string \<Rightarrow> bool \<Rightarrow> string list \<Rightarrow> RiskAnalysis" where
  "example_analysis score lvl unwind strats =
     \<lparr>timestamp = 0, composite_score = score, protocol_risk = score, liquidity_risk = score,
      utilization_risk = score, governance_risk = score, oracle_risk = score,
      risk_level = lvl, recommended_action = ''none'', action_urgency = ''LOW'',
      reasoning = ''example'', strategy_risks = [], alerts = [],
      should_emergency_unwind = unwind, unwind_strategies = strats\<rparr>"

text \<open>The vault of A, B, C, where the unwind transaction of B is reverted.\<close>

definition second_fails_world :: world where
  "second_fails_world =
     quiet_world\<lparr>strategy_count := (\<lambda>h. Inr 3),
                 strategies := (\<lambda>h. vault_ABC),
                 send_emergency_unwind := (\<lambda>h addr reason.
                    if addr = ''0xB'' then Inl (Failure ''execution reverted'')
                    else Inr (''tx'' @ addr))\<rparr>"

text \<open>An assessor that answers with the given scores, level and flag.\<close>

definition answering_world :: "int \<Rightarrow> string \<Rightarrow> bool \<Rightarrow> string list \<Rightarrow> world" where
  "answering_world score lvl unwind strats =
     quiet_world\<lparr>messages_create := (\<lambda>h vd. Inr ''{}''),
                 json_loads := (\<lambda>s. Inr (example_result score lvl unwind strats))\<rparr>"

text \<open>An assessor that answers, but not in JSON; and the same with the database
  down.\<close>

definition babbling_world :: world where
  "babbling_world = quiet_world\<lparr>messages_create := (\<lambda>h vd. Inr ''Sorry, no data.'')\<rparr>"

definition db_down_world :: world where
  "db_down_world =
     babbling_world\<lparr>db_execute := (\<lambda>h. Some (Failure ''connection refused''))\<rparr>"

text \<open>
  A world in which a rebalance is due: the vault of A, B, C with a TVL of 10,000,000, never
  rebalanced, at a time in 2023; the assessor answers with the given score, level and
  flag and names no strategy to unwind; submissions get the proposal id 1 and executions
  succeed.
\<close>

definition rebalancing_world :: "int \<Rightarrow> string \<Rightarrow> bool \<Rightarrow> world" where
  "rebalancing_world score lvl unwind =
     (answering_world score lvl unwind [])
       \<lparr>utcnow := (\<lambda>h. 1700000000000000),
        fetch_vault_data := (\<lambda>h. Inr example_vault_data),
        strategy_count := (\<lambda>h. Inr 3),
        strategies := (\<lambda>h. vault_ABC),
        last_rebalance_time := (\<lambda>h. Inr 0),
        total_assets := (\<lambda>h. Inr 10000000000000),
        submit_proposal_onchain := (\<lambda>h p. Some 1),
        execute_approved_proposal := (\<lambda>h i. True)\<rparr>"

definition rebalancing_analysis :: "int \<Rightarrow> string \<Rightarrow> bool \<Rightarrow> RiskAnalysis" where
  "rebalancing_analysis score lvl unwind =
     (example_analysis score lvl unwind [])\<lparr>timestamp := 1700000000000000\<rparr>"

text \<open>The proposal of that world: from A to C, \<open>min (5,500,000 * 7/30) 1,500,000\<close>.\<close>

definition example_proposal :: RebalanceProposal where
  "example_proposal =
     \<lparr>from_strategy = ''A'', to_strategy = ''C'', amount = 3850000 / 3,
      percentage_of_tvl = 77 / 6, expected_apy_improvement = 0,
      gas_estimate = 500000, gas_price_gwei = 30\<rparr>"


section \<open>Properties of the execution agent\<close>

lemmas example_defs =
  example_strategy_def over_A_def under_B_def under_C_def spec_A_def spec_B_def
  capped_A_def roomy_B_def full_A_def full_B_def twin_1_def twin_2_def

lemmas bps_defs = MIN_IDLE_BUFFER_BPS_def BASIS_POINTS_def MAX_SINGLE_REBALANCE_BPS_def

subsection \<open>The cooldown\<close>

text \<open>On a host whose local time is UTC, and for a ledger timestamp whose deadline is a
  representable \<^verbatim>\<open>datetime\<close>, the cooldown is the one of the specification.\<close>

lemma can_rebalance_utc_host:
  assumes "utc_offset w = 0"
    and "last_rebalance_time w h = Inr last_rebalance"
    and "DATETIME_MIN \<le> last_rebalance * 1000000"
    and "(last_rebalance + 7 * 86400) * 1000000 \<le> DATETIME_MAX"
  shows "utcnow w (h @ [LastRebalanceTime]) < (last_rebalance + 7 * 86400) * 1000000
           \<longrightarrow> (\<exists>msg. fst (can_rebalance w h) = Inr (False, Some msg) \<and> msg \<noteq> [])"
    and "\<not> utcnow w (h @ [LastRebalanceTime]) < (last_rebalance + 7 * 86400) * 1000000
           \<longrightarrow> fst (can_rebalance w h) = Inr (True, None)"
  using assms
  by (auto simp add: can_rebalance_def fromtimestamp_def datetime_add_def
      REBALANCE_COOLDOWN_def Let_def)

text \<open>
  Claim C9: for every \<open>now < lastRebalanceTime + 7 days\<close>, \<^verbatim>\<open>can_rebalance\<close> returns
  false with a non-empty message, and true otherwise. The code compares the naive UTC
  time of \<^verbatim>\<open>datetime.utcnow()\<close> with the naive local time of
  \<^verbatim>\<open>datetime.fromtimestamp(last_rebalance)\<close>: on a host five hours west of UTC, one second
  before the end of the seven days, it allows the rebalance.
\<close>

theorem can_rebalance_west_of_utc:
  "last_rebalance_time new_york_world [] = Inr 1700000000
   \<and> utcnow new_york_world [LastRebalanceTime] < (1700000000 + 7 * 86400) * 1000000
   \<and> fst (can_rebalance new_york_world []) = Inr (True, None)"
  by (simp add: can_rebalance_def new_york_world_def quiet_world_def fromtimestamp_def
      datetime_add_def DATETIME_MIN_def DATETIME_MAX_def REBALANCE_COOLDOWN_def)

subsection \<open>The optimizer\<close>

lemma weights_loop_keys:
  "fst ` set (fst (weights_loop as (ws, t))) = fst ` set ws \<union> name ` set as"
  by (induction as arbitrary: ws t) (auto simp: Let_def dom_update)

lemma sum_update_fresh:
  "k \<notin> fst ` set ws \<Longrightarrow>
   sum_list (map snd (AList.update k v ws)) = sum_list (map snd ws) + (v::rat)"
  by (induction ws) auto

lemma length_update_fresh:
  "k \<notin> fst ` set ws \<Longrightarrow> length (AList.update k v ws) = Suc (length ws)"
  by (induction ws) auto

text \<open>With distinct names, the dict holds exactly what was added to the total.\<close>

lemma weights_loop_sum:
  "distinct (map name as) \<Longrightarrow> name ` set as \<inter> fst ` set ws = {} \<Longrightarrow>
   sum_list (map snd (fst (weights_loop as (ws, t)))) - snd (weights_loop as (ws, t))
     = sum_list (map snd ws) - t"
proof (induction as arbitrary: ws t)
  case Nil
  then show ?case by simp
next
  case (Cons a as)
  let ?v = "min (current_apy a * (1 - utilization a)) (max_allocation a)"
  have fresh: "name a \<notin> fst ` set ws" using Cons.prems(2) by auto
  have disj: "name ` set as \<inter> fst ` set (AList.update (name a) ?v ws) = {}"
    using Cons.prems by (auto simp: dom_update)
  have "sum_list (map snd (fst (weights_loop as (AList.update (name a) ?v ws, t + ?v))))
          - snd (weights_loop as (AList.update (name a) ?v ws, t + ?v))
        = sum_list (map snd (AList.update (name a) ?v ws)) - (t + ?v)"
    using Cons.IH [OF _ disj] Cons.prems(1) by simp
  then show ?case by (simp add: Let_def sum_update_fresh [OF fresh])
qed

lemma weights_loop_length:
  "distinct (map name as) \<Longrightarrow> name ` set as \<inter> fst ` set ws = {} \<Longrightarrow>
   length (fst (weights_loop as (ws, t))) = length ws + length as"
proof (induction as arbitrary: ws t)
  case Nil
  then show ?case by simp
next
  case (Cons a as)
  let ?v = "min (current_apy a * (1 - utilization a)) (max_allocation a)"
  have fresh: "name a \<notin> fst ` set ws" using Cons.prems(2) by auto
  have disj: "name ` set as \<inter> fst ` set (AList.update (name a) ?v ws) = {}"
    using Cons.prems by (auto simp: dom_update)
  show ?case
    using Cons.IH [OF _ disj, of "t + ?v"] Cons.prems(1)
    by (simp add: Let_def length_update_fresh [OF fresh])
qed

lemma sum_scaled:
  "sum_list (map (\<lambda>(nm, w). (w / T) * (c::rat)) ws) = (sum_list (map snd ws) / T) * c"
  by (induction ws) (auto simp: add_divide_distrib distrib_right)

lemma sum_const:
  "sum_list (map (\<lambda>(nm, w). (c::rat)) ws) = of_nat (length ws) * c"
  by (induction ws) (auto simp: field_simps)

lemma optimal_values:
  assumes "weights_loop allocs ([], 0) = (ws, T)"
  shows "map snd (calculate_optimal_allocation allocs) =
           (if T > 0 then map (\<lambda>(nm, w). (w / T) * (1 - MIN_IDLE_BUFFER_BPS / BASIS_POINTS)) ws
            else map (\<lambda>(nm, w). (1 - MIN_IDLE_BUFFER_BPS / BASIS_POINTS) / of_nat (length ws)) ws)"
  using assms by (simp add: calculate_optimal_allocation_def Let_def case_prod_unfold)

lemma optimal_sum:
  assumes "allocs \<noteq> []" and "distinct (map name allocs)"
  shows "sum_list (map snd (calculate_optimal_allocation allocs))
           = 1 - MIN_IDLE_BUFFER_BPS / BASIS_POINTS"
proof -
  obtain ws T where wl: "weights_loop allocs ([], 0) = (ws, T)"
    by (cases "weights_loop allocs ([], 0)")
  have s: "sum_list (map snd ws) = T"
    using weights_loop_sum [OF assms(2), of "[]" 0] wl by simp
  have "length ws = length allocs"
    using weights_loop_length [OF assms(2), of "[]" 0] wl by simp
  then have ne: "ws \<noteq> []" using assms(1) by auto
  show ?thesis
  proof (cases "T > 0")
    case True
    then show ?thesis using s by (simp only: optimal_values [OF wl] if_True sum_scaled) simp
  next
    case False
    then show ?thesis using ne by (simp only: optimal_values [OF wl] if_False sum_const) simp
  qed
qed

lemma optimal_equal_split:
  assumes "distinct (map name allocs)" and "snd (weights_loop allocs ([], 0)) \<le> 0"
    and "v \<in> set (map snd (calculate_optimal_allocation allocs))"
  shows "v = (1 - MIN_IDLE_BUFFER_BPS / BASIS_POINTS) / of_nat (length allocs)"
proof -
  obtain ws T where wl: "weights_loop allocs ([], 0) = (ws, T)"
    by (cases "weights_loop allocs ([], 0)")
  have len: "length ws = length allocs"
    using weights_loop_length [OF assms(1), of "[]" 0] wl by simp
  have "\<not> T > 0" using assms(2) wl by simp
  then show ?thesis using assms(3) len by (auto simp: optimal_values [OF wl])
qed

text \<open>
  Claim C7, as stated: for every non-empty strategy list the output sums to 9500 bps.
  The dict of the weights is keyed by the strategy's name, while the total counts every
  list element: two strategies under one name leave one entry, and half of the budget.
\<close>

theorem optimizer_shared_name_sum:
  "[twin_1, twin_2] \<noteq> []
   \<and> address twin_1 \<noteq> address twin_2
   \<and> sum_list (map snd (calculate_optimal_allocation [twin_1, twin_2])) = 4750 / 10000
   \<and> sum_list (map snd (calculate_optimal_allocation [twin_1, twin_2])) \<noteq> 9500 / 10000"
  by (simp add: Let_def calculate_optimal_allocation_def example_defs bps_defs)

text \<open>
  Claim C7, amended: for every non-empty strategy list with pairwise distinct names the
  targets sum to exactly \<open>(10000 - 500) / 10000\<close>, that is 9500 bps, also when the total
  weight is not positive, where every strategy gets the same share of the budget; for
  the empty list the result is the empty dict.
\<close>

theorem optimizer_conservation:
  "calculate_optimal_allocation [] = []
   \<and> (allocs \<noteq> [] \<and> distinct (map name allocs) \<longrightarrow>
        sum_list (map snd (calculate_optimal_allocation allocs)) = 9500 / 10000
        \<and> (snd (weights_loop allocs ([], 0)) \<le> 0 \<longrightarrow>
             (\<forall>v \<in> set (map snd (calculate_optimal_allocation allocs)).
                v = (9500 / 10000) / of_nat (length allocs))))"
proof -
  have av: "1 - MIN_IDLE_BUFFER_BPS / BASIS_POINTS = 9500 / 10000"
    by (simp add: bps_defs)
  have "calculate_optimal_allocation [] = []"
    by (simp add: calculate_optimal_allocation_def)
  then show ?thesis
    using optimal_sum [of allocs] optimal_equal_split [of allocs]
    unfolding av by blast
qed

theorem optimizer_conservation_witness:
  "[full_A, full_B] \<noteq> [] \<and> distinct (map name [full_A, full_B])
   \<and> snd (weights_loop [full_A, full_B] ([], 0)) \<le> 0
   \<and> sum_list (map snd (calculate_optimal_allocation [full_A, full_B])) = 9500 / 10000
   \<and> map snd (calculate_optimal_allocation [full_A, full_B]) = [4750 / 10000, 4750 / 10000]"
proof -
  have h: "[full_A, full_B] \<noteq> [] \<and> distinct (map name [full_A, full_B])"
    by (simp add: example_defs)
  have z: "snd (weights_loop [full_A, full_B] ([], 0)) \<le> 0"
    by (simp add: example_defs Let_def)
  have v: "map snd (calculate_optimal_allocation [full_A, full_B]) = [4750 / 10000, 4750 / 10000]"
    by (simp add: Let_def calculate_optimal_allocation_def example_defs bps_defs)
  show ?thesis
    using h z v optimizer_conservation [of "[full_A, full_B]"] by simp
qed

text \<open>
  Claim C8: no target of the optimizer exceeds the strategy's cap. The code caps the raw
  weight \<open>APY * (1 - utilization)\<close> at \<open>max_allocation\<close> before it normalises; the
  normalised target is not capped. Here A is capped at 3000 bps and gets 19/22 of the
  TVL, although the caps of A and B leave room for 9500 bps.
\<close>

theorem optimizer_target_exceeds_cap:
  "map_of (calculate_optimal_allocation [capped_A, roomy_B]) (name capped_A) = Some (19 / 22)
   \<and> max_allocation capped_A = 3000 / 10000
   \<and> max_allocation capped_A < 19 / 22
   \<and> 9500 / 10000 \<le> max_allocation capped_A + max_allocation roomy_B"
  by (simp add: Let_def calculate_optimal_allocation_def example_defs bps_defs)

subsection \<open>The proposer\<close>

text \<open>The \<open>from\<close> of the selection loop is a strategy with the largest deviation above
  the starting maximum, if there is one.\<close>

lemma select_loop_from:
  assumes "select_loop optimal allocs (m, f, t) = (m', f', t')"
  shows "(m' = m \<and> f' = f
            \<and> (\<forall>b \<in> set allocs. current_allocation b
                   - (case map_of optimal (name b) of Some x \<Rightarrow> x | None \<Rightarrow> 0) \<le> m))
       \<or> (m < m' \<and> (\<exists>a \<in> set allocs. f' = Some a
              \<and> current_allocation a
                   - (case map_of optimal (name a) of Some x \<Rightarrow> x | None \<Rightarrow> 0) = m')
            \<and> (\<forall>b \<in> set allocs. current_allocation b
                   - (case map_of optimal (name b) of Some x \<Rightarrow> x | None \<Rightarrow> 0) \<le> m'))"
  using assms
proof (induction allocs arbitrary: m f t)
  case Nil
  then show ?case by simp
next
  case (Cons a allocs)
  let ?d = "\<lambda>b. current_allocation b
              - (case map_of optimal (name b) of Some x \<Rightarrow> x | None \<Rightarrow> 0)"
  show ?case
  proof (cases "?d a > m")
    case True
    then have "select_loop optimal allocs (?d a, Some a, t) = (m', f', t')"
      using Cons.prems by (simp add: Let_def)
    from Cons.IH [OF this] True show ?thesis by (auto simp: Let_def)
  next
    case False
    then obtain t1 where "select_loop optimal allocs (m, f, t1) = (m', f', t')"
      using Cons.prems by (auto simp: Let_def split: if_splits)
    from Cons.IH [OF this] False show ?thesis by (auto simp: Let_def)
  qed
qed

text \<open>
  Claim C5: \<open>from\<close> is the strategy with the largest positive deviation, \<open>to\<close> the one with
  the largest negative deviation, whatever the order of the list. The first half holds
  (lemma \<open>select_loop_from\<close>). For the second, the loop keeps as \<open>to\<close>
  the LAST strategy whose deviation is below minus the running maximum: with the
  deviations A = 7/30, B = -19/60, C = -4/15 it selects C in the order A, B, C and B in
  the order A, C, B.
\<close>

theorem select_to_depends_on_order:
  "calculate_optimal_allocation [over_A, under_B, under_C]
     = [(''A'', 19 / 60), (''B'', 19 / 60), (''C'', 19 / 60)]
   \<and> current_allocation under_B - 19 / 60 < current_allocation under_C - 19 / 60
   \<and> select_strategies [over_A, under_B, under_C] = (7 / 30, Some over_A, Some under_C)
   \<and> select_strategies [over_A, under_C, under_B] = (7 / 30, Some over_A, Some under_B)"
  by (simp add: Let_def select_strategies_def calculate_optimal_allocation_def
      example_defs bps_defs)

text \<open>
  Claim C6, as stated: on the example (TVL 10,000,000, deviation 1500 bps, A holding
  4,000,000, B holding 1,000,000 under a cap of 2000 bps) the clamp reduces the amount
  to 1,000,000. The amount is 600,000: B would hold 1,600,000, under its cap of
  2,000,000, and the clamp does not apply.
\<close>

theorem rebalance_amount_example_unclamped:
  "rebalance_amount spec_A spec_B (1500 / 10000) 10000000 = Inr (Some 600000)
   \<and> rebalance_amount spec_A spec_B (1500 / 10000) 10000000 \<noteq> Inr (Some 1000000)"
  by (simp add: rebalance_amount_def example_defs bps_defs)

text \<open>
  Claim C6, amended: for a positive TVL the amount is
  \<open>min (from.total_deposited * d) (tvl * 1500 / 10000)\<close>, replaced by
  \<open>to.max_allocation * tvl - to.total_deposited\<close> when \<open>to\<close> would exceed its cap; no
  proposal is made when the result is not positive; a proposed amount is positive, at
  most the unclamped amount, and keeps \<open>to\<close> within its cap.
\<close>

theorem rebalance_amount_clamped:
  assumes "0 < tvl"
  shows "rebalance_amount from_strat to_strat d tvl =
           (let amount0 = min (total_deposited from_strat * d) (tvl * 1500 / 10000);
                amount1 = (if max_allocation to_strat * tvl < total_deposited to_strat + amount0
                           then max_allocation to_strat * tvl - total_deposited to_strat
                           else amount0)
            in if amount1 \<le> 0 then Inr None else Inr (Some amount1))
         \<and> (\<forall>a. rebalance_amount from_strat to_strat d tvl = Inr (Some a) \<longrightarrow>
                0 < a
                \<and> a \<le> min (total_deposited from_strat * d) (tvl * 1500 / 10000)
                \<and> total_deposited to_strat + a \<le> max_allocation to_strat * tvl)"
proof -
  have eq: "rebalance_amount from_strat to_strat d tvl =
           (let amount0 = min (total_deposited from_strat * d) (tvl * 1500 / 10000);
                amount1 = (if max_allocation to_strat * tvl < total_deposited to_strat + amount0
                           then max_allocation to_strat * tvl - total_deposited to_strat
                           else amount0)
            in if amount1 \<le> 0 then Inr None else Inr (Some amount1))"
    using assms
    by (simp add: rebalance_amount_def Let_def bps_defs pos_less_divide_eq)
  show ?thesis
    unfolding eq by (auto simp: Let_def split: if_splits)
qed

theorem rebalance_amount_clamped_witness:
  "(0::rat) < 10000000
   \<and> rebalance_amount spec_A spec_B (1500 / 10000) 10000000 = Inr (Some 600000)
   \<and> (0::rat) < 600000
   \<and> 600000 \<le> min (total_deposited spec_A * (1500 / 10000)) (10000000 * 1500 / 10000)
   \<and> total_deposited spec_B + 600000 \<le> max_allocation spec_B * 10000000"
proof -
  have h: "(0::rat) < 10000000" by simp
  have r: "rebalance_amount spec_A spec_B (1500 / 10000) 10000000 = Inr (Some 600000)"
    by (simp add: rebalance_amount_def example_defs bps_defs)
  show ?thesis
    using h r rebalance_amount_clamped [OF h, of spec_A spec_B "1500 / 10000"] by simp
qed

section \<open>Properties of the risk agent\<close>

subsection \<open>The classes of events\<close>

lemma risk_event_simps [simp]:
  "risk_event (Log lvl msg)" "risk_event UtcNow" "risk_event FetchVaultData"
  "risk_event (MessagesCreate vd)" "risk_event (LogAnalysis a act tx res)"
  "risk_event StrategyCount" "risk_event (Strategies i)"
  "risk_event (SendEmergencyUnwind addr reason)" "risk_event (WaitReceipt tx')"
  "\<not> risk_event AnalyzeRisk" "\<not> risk_event (Sleep n)"
  by (simp_all add: risk_event_def)

lemma retry_event_simps [simp]:
  "retry_event AnalyzeRisk" "retry_event (Sleep n)"
  "\<not> retry_event (Log lvl msg)" "\<not> retry_event UtcNow"
  "\<not> retry_event (LogAnalysis a act tx res)" "\<not> retry_event (MessagesCreate vd)"
  "\<not> retry_event FetchVaultData" "\<not> retry_event StrategyCount"
  "\<not> retry_event (Strategies i)"
  by (simp_all add: retry_event_def)

lemma risk_not_retry: "risk_event ev \<Longrightarrow> \<not> retry_event ev"
  by (cases ev) (simp_all add: risk_event_def retry_event_def)

lemma outcome_simps [simp]:
  "outcome (Log lvl (StrategyNotFound n)) = Some (n, NotFound)"
  "outcome (Log lvl (UnwindFailed n e)) = Some (n, Failed e)"
  "outcome (Log lvl (UnwindTxSent t)) = None"
  "outcome (Log lvl (UnwindCompleted st)) = None"
  "outcome (Log lvl (ExecutingEmergencyUnwind sc)) = None"
  "outcome StrategyCount = None" "outcome (Strategies i) = None"
  "outcome (SendEmergencyUnwind addr reason) = None" "outcome (WaitReceipt t) = None"
  "outcome (LogAnalysis a act tx (Some e)) = None"
  "outcome (LogAnalysis a None tx res) = None"
  "outcome (LogAnalysis a (Some action) (Some t) None) =
     (if take 17 action = ''Emergency unwind '' then Some (drop 17 action, Unwound t) else None)"
  by (simp_all add: outcome_def split: option.splits)

lemma is_unwind_warning_simps [simp]:
  "is_unwind_warning (Log lvl (ExecutingEmergencyUnwind sc))"
  "\<not> is_unwind_warning (Log lvl (ParseFailed m))"
  "\<not> is_unwind_warning UtcNow" "\<not> is_unwind_warning FetchVaultData"
  "\<not> is_unwind_warning (MessagesCreate vd)"
  "\<not> is_unwind_warning (LogAnalysis a act tx res)"
  by (simp_all add: is_unwind_warning_def)

lemma map_filter_append [simp]:
  "List.map_filter f (xs @ ys) = List.map_filter f xs @ List.map_filter f ys"
  by (simp add: List.map_filter_def)

lemma map_filter_Cons_Some [simp]:
  "f x = Some y \<Longrightarrow> List.map_filter f (x # xs) = y # List.map_filter f xs"
  by (simp add: List.map_filter_def)

lemma map_filter_Cons_None [simp]:
  "f x = None \<Longrightarrow> List.map_filter f (x # xs) = List.map_filter f xs"
  by (simp add: List.map_filter_def)

lemma map_filter_Nil [simp]: "List.map_filter f [] = []"
  by (simp add: List.map_filter_def)


subsection \<open>The emergency unwind\<close>

lemma find_strategy_ext:
  "\<exists>es. snd (find_strategy w n is h) = h @ es \<and> list_all risk_event es
        \<and> List.map_filter outcome es = []"
proof (induction "is" arbitrary: h)
  case Nil
  then show ?case by simp
next
  case (Cons i "is")
  obtain es where es:
    "snd (find_strategy w n is (h @ [Strategies i])) = (h @ [Strategies i]) @ es"
    "list_all risk_event es" "List.map_filter outcome es = []"
    using Cons.IH by blast
  show ?case
  proof (cases "strategies w h i")
    case (Inl e)
    then show ?thesis by simp
  next
    case (Inr strat)
    show ?thesis
    proof (cases "st_name strat = n")
      case True
      then show ?thesis using Inr by simp
    next
      case False
      then show ?thesis using Inr es by simp
    qed
  qed
qed

text \<open>One iteration leaves exactly one outcome when its body ends normally, and none
  when it raises: then the handler of the loop logs the failure.\<close>

lemma unwind_strategy_ext:
  "\<exists>es. snd (unwind_strategy w a n h) = h @ es \<and> list_all risk_event es \<and>
        (case fst (unwind_strategy w a n h) of
           Inl e \<Rightarrow> List.map_filter outcome es = []
         | Inr u \<Rightarrow> map fst (List.map_filter outcome es) = [n])"
proof (cases "strategy_count w h")
  case (Inl e)
  then show ?thesis by (simp add: unwind_strategy_def)
next
  case (Inr cnt)
  obtain es where es:
    "snd (find_strategy w n [0..<cnt] (h @ [StrategyCount])) = (h @ [StrategyCount]) @ es"
    "list_all risk_event es" "List.map_filter outcome es = []"
    using find_strategy_ext by blast
  obtain r h1 where f: "find_strategy w n [0..<cnt] (h @ [StrategyCount]) = (r, h1)"
    by (cases "find_strategy w n [0..<cnt] (h @ [StrategyCount])")
  have h1: "h1 = h @ StrategyCount # es" using es(1) f by simp
  show ?thesis
    using Inr f es(2,3) unfolding h1
    by (auto simp: unwind_strategy_def log_analysis_def Let_def
        split: sum.splits option.splits)
qed

lemma unwind_loop_ext:
  "\<exists>es. unwind_loop w a ns h = h @ es \<and> list_all risk_event es \<and>
        map fst (List.map_filter outcome es) = ns"
proof (induction ns arbitrary: h)
  case Nil
  then show ?case by simp
next
  case (Cons n ns)
  obtain es where es: "snd (unwind_strategy w a n h) = h @ es" "list_all risk_event es"
    "(case fst (unwind_strategy w a n h) of
           Inl e \<Rightarrow> List.map_filter outcome es = []
         | Inr u \<Rightarrow> map fst (List.map_filter outcome es) = [n])"
    using unwind_strategy_ext by blast
  obtain r h1 where u: "unwind_strategy w a n h = (r, h1)"
    by (cases "unwind_strategy w a n h")
  have h1: "h1 = h @ es" using es(1) u by simp
  show ?case
  proof (cases r)
    case (Inl e)
    obtain es' where es':
      "unwind_loop w a ns (h1 @ [Log ERROR (UnwindFailed n e)])
         = (h1 @ [Log ERROR (UnwindFailed n e)]) @ es'"
      "list_all risk_event es'" "map fst (List.map_filter outcome es') = ns"
      using Cons.IH by blast
    show ?thesis using Inl u es(2,3) es' unfolding h1 by simp
  next
    case (Inr x)
    obtain es' where es': "unwind_loop w a ns h1 = h1 @ es'"
      "list_all risk_event es'" "map fst (List.map_filter outcome es') = ns"
      using Cons.IH by blast
    show ?thesis using Inr u es(2,3) es' unfolding h1 by simp
  qed
qed

lemma execute_emergency_unwind_ext:
  "\<exists>es. execute_emergency_unwind w a h
          = h @ Log WARNING (ExecutingEmergencyUnwind (composite_score a)) # es
        \<and> list_all risk_event es
        \<and> map fst (List.map_filter outcome es) = unwind_strategies a"
proof -
  obtain es where es:
    "unwind_loop w a (unwind_strategies a)
        (h @ [Log WARNING (ExecutingEmergencyUnwind (composite_score a))])
     = (h @ [Log WARNING (ExecutingEmergencyUnwind (composite_score a))]) @ es"
    "list_all risk_event es" "map fst (List.map_filter outcome es) = unwind_strategies a"
    using unwind_loop_ext by blast
  show ?thesis by (simp add: execute_emergency_unwind_def es)
qed


lemma second_fails_world_simps [simp]:
  "strategy_count second_fails_world h = Inr 3"
  "strategies second_fails_world h = vault_ABC"
  "send_emergency_unwind second_fails_world h addr reason =
     (if addr = ''0xB'' then Inl (Failure ''execution reverted'') else Inr (''tx'' @ addr))"
  "wait_receipt second_fails_world h t = Inr 1"
  "db_execute second_fails_world h = None"
  by (simp_all add: second_fails_world_def quiet_world_def)

lemma vault_ABC_simps [simp]:
  "vault_ABC 0 = Inr (example_tuple ''A'' 5500 6000 5500000000000)"
  "vault_ABC (Suc 0) = Inr (example_tuple ''B'' 0 6000 0)"
  "vault_ABC 2 = Inr (example_tuple ''C'' 500 6000 500000000000)"
  by (simp_all add: vault_ABC_def)

lemma example_tuple_simps [simp]:
  "st_name (example_tuple nm alloc mx dep) = nm"
  "st_address (example_tuple nm alloc mx dep) = ''0x'' @ nm"
  by (simp_all add: example_tuple_def)







subsection \<open>\<^verbatim>\<open>analyze_risk\<close>\<close>

lemma parse_response_ext:
  "\<exists>es. snd (parse_response w t h) = h @ es \<and> list_all risk_event es
        \<and> \<not> list_ex is_unwind_warning es"
  by (auto simp: parse_response_def split: sum.splits error.splits)

text \<open>The events of \<^verbatim>\<open>analyze_risk\<close> up to the branch of line 295, when it returns.\<close>

lemma analyze_risk_returns:
  assumes "analyze_risk w vdo h = (Inr a, h')"
  shows "\<exists>pre. list_all risk_event pre \<and> \<not> list_ex is_unwind_warning pre \<and>
           h' = (if composite_score a \<ge> 8000 \<or> should_emergency_unwind a
                 then execute_emergency_unwind w a (h @ pre) else h @ pre)"
proof -
  obtain r0 h1 where v: "(case vdo of Some vd \<Rightarrow> (Inr vd, h)
            | None \<Rightarrow> (fetch_vault_data w h, h @ [FetchVaultData])) = (r0, h1)"
    by (cases "(case vdo of Some vd \<Rightarrow> (Inr vd, h)
            | None \<Rightarrow> (fetch_vault_data w h, h @ [FetchVaultData]))")
  obtain e0 where h1: "h1 = h @ e0" "list_all risk_event e0" "\<not> list_ex is_unwind_warning e0"
    using v by (cases vdo) auto
  from assms v obtain vd where r0: "r0 = Inr vd"
    by (cases r0) (auto simp: analyze_risk_def)
  from assms v r0 obtain resp where m: "messages_create w h1 vd = Inr resp"
    by (cases "messages_create w h1 vd") (auto simp: analyze_risk_def)
  obtain r2 h2 where p: "parse_response w resp (h1 @ [MessagesCreate vd]) = (r2, h2)"
    by (cases "parse_response w resp (h1 @ [MessagesCreate vd])")
  obtain e2 where h2: "h2 = (h1 @ [MessagesCreate vd]) @ e2" "list_all risk_event e2"
      "\<not> list_ex is_unwind_warning e2"
    using parse_response_ext [of w resp "h1 @ [MessagesCreate vd]"] p by auto
  from assms v r0 m p obtain result where r2: "r2 = Inr result"
    by (cases r2) (auto simp: analyze_risk_def)
  from assms v r0 m p r2 obtain a' where mk: "make_analysis (utcnow w h2) result = Inr a'"
    by (cases "make_analysis (utcnow w h2) result") (auto simp: analyze_risk_def)
  from assms v r0 m p r2 mk have db: "db_execute w (h2 @ [UtcNow]) = None"
    by (cases "db_execute w (h2 @ [UtcNow])") (auto simp: analyze_risk_def log_analysis_def)
  from assms v r0 m p r2 mk db have a: "a' = a"
    by (auto simp: analyze_risk_def log_analysis_def split: if_splits)
  let ?pre = "e0 @ [MessagesCreate vd] @ e2 @ [UtcNow, LogAnalysis a None None None]"
  have "h' = (if composite_score a \<ge> 8000 \<or> should_emergency_unwind a
                 then execute_emergency_unwind w a (h @ ?pre) else h @ ?pre)"
    using assms v r0 m p r2 mk db a h1 h2
    by (auto simp: analyze_risk_def log_analysis_def split: if_splits)
  moreover have "list_all risk_event ?pre" "\<not> list_ex is_unwind_warning ?pre"
    using h1 h2 by simp_all
  ultimately show ?thesis by blast
qed

text \<open>Every run of \<^verbatim>\<open>analyze_risk\<close> only adds events of the risk agent.\<close>

lemma analyze_risk_ext:
  "\<exists>es. snd (analyze_risk w vdo h) = h @ es \<and> list_all risk_event es"
proof (cases "fst (analyze_risk w vdo h)")
  case (Inr a)
  then have eq: "analyze_risk w vdo h = (Inr a, snd (analyze_risk w vdo h))"
    by (metis prod.collapse)
  obtain pre where pre: "list_all risk_event pre"
     "snd (analyze_risk w vdo h)
        = (if composite_score a \<ge> 8000 \<or> should_emergency_unwind a
           then execute_emergency_unwind w a (h @ pre) else h @ pre)"
    using analyze_risk_returns [OF eq] by blast
  obtain es where es: "execute_emergency_unwind w a (h @ pre)
      = (h @ pre) @ Log WARNING (ExecutingEmergencyUnwind (composite_score a)) # es"
      "list_all risk_event es"
    using execute_emergency_unwind_ext by blast
  show ?thesis using pre es by auto
next
  case (Inl e)
  obtain r0 h1 where v: "(case vdo of Some vd \<Rightarrow> (Inr vd, h)
            | None \<Rightarrow> (fetch_vault_data w h, h @ [FetchVaultData])) = (r0, h1)"
    by (cases "(case vdo of Some vd \<Rightarrow> (Inr vd, h)
            | None \<Rightarrow> (fetch_vault_data w h, h @ [FetchVaultData]))")
  obtain e0 where h1: "h1 = h @ e0" "list_all risk_event e0"
    using v by (cases vdo) auto
  show ?thesis
  proof (cases r0)
    case (Inl e')
    then show ?thesis using v h1 by (simp add: analyze_risk_def)
  next
    case r0: (Inr vd)
    show ?thesis
    proof (cases "messages_create w h1 vd")
      case (Inl e')
      then show ?thesis using v r0 h1 by (simp add: analyze_risk_def)
    next
      case m: (Inr resp)
      obtain r2 h2 where p: "parse_response w resp (h1 @ [MessagesCreate vd]) = (r2, h2)"
        by (cases "parse_response w resp (h1 @ [MessagesCreate vd])")
      obtain e2 where h2: "h2 = (h1 @ [MessagesCreate vd]) @ e2" "list_all risk_event e2"
        using parse_response_ext [of w resp "h1 @ [MessagesCreate vd]"] p by auto
      show ?thesis
        using Inl v r0 m p h1 h2
        by (auto simp: analyze_risk_def log_analysis_def
            split: sum.splits option.splits if_splits)
    qed
  qed
qed

lemma make_analysis_example:
  "make_analysis 0 (example_result score lvl unwind strats)
     = Inr (example_analysis score lvl unwind strats)"
  by (simp add: make_analysis_def example_result_def example_analysis_def bind_err_def
      subscript_def)

lemma answering_world_simps [simp]:
  "messages_create (answering_world score lvl unwind strats) h vd = Inr ''{}''"
  "json_loads (answering_world score lvl unwind strats) s
     = Inr (example_result score lvl unwind strats)"
  "utcnow (answering_world score lvl unwind strats) h = 0"
  "db_execute (answering_world score lvl unwind strats) h = None"
  by (simp_all add: answering_world_def quiet_world_def)

text \<open>The run of \<^verbatim>\<open>analyze_risk\<close> on an answer that flags no strategy.\<close>

lemma answering_world_run:
  "analyze_risk (answering_world score lvl unwind []) (Some vd) h =
     (Inr (example_analysis score lvl unwind []),
      h @ [MessagesCreate vd, UtcNow,
           LogAnalysis (example_analysis score lvl unwind []) None None None]
        @ (if score \<ge> 8000 \<or> unwind
           then [Log WARNING (ExecutingEmergencyUnwind score)] else []))"
  by (simp add: analyze_risk_def parse_response_def make_analysis_example log_analysis_def
      execute_emergency_unwind_def example_analysis_def [of score lvl unwind "[]"])

text \<open>
  Claim C2: for every analysis that \<^verbatim>\<open>analyze_risk\<close> returns, the emergency unwind is
  invoked in that run if and only if \<open>composite_score \<ge> 8000\<close> or
  \<open>should_emergency_unwind\<close>. The witness has the three cases of the claim: 8000 without
  the flag and 7999 with the flag invoke it, 7999 without the flag does not.
\<close>

theorem unwind_branch_iff:
  assumes "analyze_risk w vault_data_opt h = (Inr analysis, h')"
  shows "unwind_invoked (drop (length h) h') \<longleftrightarrow>
           (composite_score analysis \<ge> 8000 \<or> should_emergency_unwind analysis)"
proof -
  obtain pre where pre: "\<not> list_ex is_unwind_warning pre"
     "h' = (if composite_score analysis \<ge> 8000 \<or> should_emergency_unwind analysis
            then execute_emergency_unwind w analysis (h @ pre) else h @ pre)"
    using analyze_risk_returns [OF assms] by blast
  obtain es where es: "execute_emergency_unwind w analysis (h @ pre)
      = (h @ pre) @ Log WARNING (ExecutingEmergencyUnwind (composite_score analysis)) # es"
    using execute_emergency_unwind_ext by blast
  show ?thesis
    using pre(1) unfolding pre(2) unwind_invoked_def
    by (auto simp: es)
qed

theorem unwind_branch_iff_witness:
  "fst (analyze_risk (answering_world 8000 ''CRITICAL'' False []) (Some example_vault_data) [])
     = Inr (example_analysis 8000 ''CRITICAL'' False [])
   \<and> unwind_invoked
       (snd (analyze_risk (answering_world 8000 ''CRITICAL'' False []) (Some example_vault_data) []))
   \<and> fst (analyze_risk (answering_world 7999 ''HIGH_RISK'' True []) (Some example_vault_data) [])
     = Inr (example_analysis 7999 ''HIGH_RISK'' True [])
   \<and> unwind_invoked
       (snd (analyze_risk (answering_world 7999 ''HIGH_RISK'' True []) (Some example_vault_data) []))
   \<and> fst (analyze_risk (answering_world 7999 ''HIGH_RISK'' False []) (Some example_vault_data) [])
     = Inr (example_analysis 7999 ''HIGH_RISK'' False [])
   \<and> \<not> unwind_invoked
       (snd (analyze_risk (answering_world 7999 ''HIGH_RISK'' False []) (Some example_vault_data) []))"
proof -
  let ?run = "\<lambda>score lvl unwind.
    analyze_risk (answering_world score lvl unwind []) (Some example_vault_data) []"
  have r: "\<And>score lvl unwind.
      ?run score lvl unwind
        = (Inr (example_analysis score lvl unwind []), snd (?run score lvl unwind))"
    by (simp add: answering_world_run)
  have f: "\<And>score lvl unwind.
      composite_score (example_analysis score lvl unwind []) = score
      \<and> should_emergency_unwind (example_analysis score lvl unwind []) = unwind"
    by (simp add: example_analysis_def)
  show ?thesis
    using unwind_branch_iff [OF r [of 8000 "''CRITICAL''" False]]
      unwind_branch_iff [OF r [of 7999 "''HIGH_RISK''" True]]
      unwind_branch_iff [OF r [of 7999 "''HIGH_RISK''" False]]
    by (simp add: f answering_world_run)
qed

section \<open>Properties of the orchestrator\<close>

subsection \<open>The retry\<close>

lemma upt_retries: "[0..<MAX_RETRIES] = [0, 1, 2]"
  by (simp add: MAX_RETRIES_def upt_rec)

text \<open>The retry loop when every attempt raises.\<close>

lemma retry_loop_always_raises:
  assumes "\<forall>h. isl (fst (analyze_risk w (Some vd) h))"
  shows "\<exists>es le'. retry_loop w vd atts le h = (Exhausted le', h @ es)
          \<and> filter retry_event es
              = concat (map (\<lambda>attempt. [AnalyzeRisk, Sleep (RETRY_BACKOFF_BASE ^ attempt)]) atts)"
proof (induction atts arbitrary: le h)
  case Nil
  then show ?case by simp
next
  case (Cons attempt atts)
  obtain r h1 where ar: "analyze_risk w (Some vd) (h @ [AnalyzeRisk]) = (r, h1)"
    by (cases "analyze_risk w (Some vd) (h @ [AnalyzeRisk])")
  obtain e where r: "r = Inl e"
    using assms ar by (cases r) (auto dest: spec [of _ "h @ [AnalyzeRisk]"])
  obtain es1 where es1: "h1 = (h @ [AnalyzeRisk]) @ es1" "list_all risk_event es1"
    using analyze_risk_ext [of w "Some vd" "h @ [AnalyzeRisk]"] ar by auto
  have none: "filter retry_event es1 = []"
    using es1(2) by (auto simp: filter_empty_conv list_all_iff dest: risk_not_retry)
  let ?h2 = "h1 @ [Log WARNING (AttemptFailed (attempt + 1) e (RETRY_BACKOFF_BASE ^ attempt)),
                   Sleep (RETRY_BACKOFF_BASE ^ attempt)]"
  obtain es le' where es: "retry_loop w vd atts (Some e) ?h2 = (Exhausted le', ?h2 @ es)"
     "filter retry_event es
        = concat (map (\<lambda>attempt. [AnalyzeRisk, Sleep (RETRY_BACKOFF_BASE ^ attempt)]) atts)"
    using Cons.IH by blast
  show ?case
    using ar r es none unfolding es1(1)
    by (simp add: Let_def)
qed

lemma retry_exhausted:
  assumes "\<forall>h. isl (fst (analyze_risk w (Some vd) h))"
  shows "filter retry_event (drop (length h) (snd (run_risk_analysis_with_retry w vd signals h)))
           = [AnalyzeRisk, Sleep 1, AnalyzeRisk, Sleep 2, AnalyzeRisk, Sleep 4]
       \<and> composite_score (fst (run_risk_analysis_with_retry w vd signals h)) = 7500
       \<and> protocol_risk (fst (run_risk_analysis_with_retry w vd signals h)) = 7500
       \<and> liquidity_risk (fst (run_risk_analysis_with_retry w vd signals h)) = 7500
       \<and> utilization_risk (fst (run_risk_analysis_with_retry w vd signals h)) = 7500
       \<and> governance_risk (fst (run_risk_analysis_with_retry w vd signals h)) = 7500
       \<and> oracle_risk (fst (run_risk_analysis_with_retry w vd signals h)) = 7500
       \<and> risk_level (fst (run_risk_analysis_with_retry w vd signals h)) = ''HIGH_RISK''
       \<and> should_emergency_unwind (fst (run_risk_analysis_with_retry w vd signals h)) = False"
proof -
  obtain es le' where es: "retry_loop w vd [0, 1, 2] None h = (Exhausted le', h @ es)"
     "filter retry_event es
        = concat (map (\<lambda>attempt. [AnalyzeRisk, Sleep (RETRY_BACKOFF_BASE ^ attempt)]) [0, 1, 2])"
    using retry_loop_always_raises [OF assms] by blast
  show ?thesis
    using es
    by (simp add: run_risk_analysis_with_retry_def upt_retries Let_def RETRY_BACKOFF_BASE_def)
qed

lemma quiet_world_raises:
  "analyze_risk quiet_world (Some vd) h = (Inl (Failure ''unreachable''), h @ [MessagesCreate vd])"
  by (simp add: analyze_risk_def quiet_world_def)

text \<open>
  Claim C1: if every call of \<^verbatim>\<open>analyze_risk\<close> raises, the retry makes exactly three
  attempts, sleeps 1 s after the first, 2 s after the second and 4 s after the third
  failure, raises nothing, and returns an analysis with the composite score and the five
  component scores 7500, the level \<open>HIGH_RISK\<close> and no emergency unwind.
\<close>

theorem retry_exhausted_degrades:
  assumes "\<forall>h. isl (fst (analyze_risk w (Some vault_data) h))"
  shows "filter retry_event
           (drop (length h) (snd (run_risk_analysis_with_retry w vault_data signals h)))
           = [AnalyzeRisk, Sleep 1, AnalyzeRisk, Sleep 2, AnalyzeRisk, Sleep 4]
       \<and> composite_score (fst (run_risk_analysis_with_retry w vault_data signals h)) = 7500
       \<and> protocol_risk (fst (run_risk_analysis_with_retry w vault_data signals h)) = 7500
       \<and> liquidity_risk (fst (run_risk_analysis_with_retry w vault_data signals h)) = 7500
       \<and> utilization_risk (fst (run_risk_analysis_with_retry w vault_data signals h)) = 7500
       \<and> governance_risk (fst (run_risk_analysis_with_retry w vault_data signals h)) = 7500
       \<and> oracle_risk (fst (run_risk_analysis_with_retry w vault_data signals h)) = 7500
       \<and> risk_level (fst (run_risk_analysis_with_retry w vault_data signals h)) = ''HIGH_RISK''
       \<and> should_emergency_unwind (fst (run_risk_analysis_with_retry w vault_data signals h))
           = False"
  using retry_exhausted [OF assms] by blast

theorem retry_exhausted_degrades_witness:
  "(\<forall>h. isl (fst (analyze_risk quiet_world (Some example_vault_data) h)))
   \<and> filter retry_event (snd (run_risk_analysis_with_retry quiet_world example_vault_data [] []))
       = [AnalyzeRisk, Sleep 1, AnalyzeRisk, Sleep 2, AnalyzeRisk, Sleep 4]
   \<and> composite_score (fst (run_risk_analysis_with_retry quiet_world example_vault_data [] []))
       = 7500
   \<and> risk_level (fst (run_risk_analysis_with_retry quiet_world example_vault_data [] []))
       = ''HIGH_RISK''
   \<and> should_emergency_unwind
       (fst (run_risk_analysis_with_retry quiet_world example_vault_data [] [])) = False"
proof -
  have h: "\<forall>h. isl (fst (analyze_risk quiet_world (Some example_vault_data) h))"
    by (simp add: quiet_world_raises)
  show ?thesis
    using h retry_exhausted_degrades [OF h, of "[]" "[]"] by simp
qed

subsection \<open>The answer that is not JSON\<close>

lemma make_analysis_parse_failure:
  "make_analysis now (parse_failure_result e) =
     Inr \<lparr>timestamp = now, composite_score = 7000, protocol_risk = 7000, liquidity_risk = 7000,
          utilization_risk = 7000, governance_risk = 7000, oracle_risk = 7000,
          risk_level = ''HIGH_RISK'',
          recommended_action = ''Manual review required - parse failure'',
          action_urgency = ''HIGH'',
          reasoning = ''Failed to parse AI response: '' @ str_error e,
          strategy_risks = [], alerts = [''Parse failure - manual review required''],
          should_emergency_unwind = False, unwind_strategies = []\<rparr>"
  by (simp add: make_analysis_def parse_failure_result_def bind_err_def subscript_def)

lemma parse_response_caught:
  assumes "json_loads w (extract_json resp) = Inl e"
    and "e = JSONDecodeError msg \<or> e = ValueError msg"
  shows "parse_response w resp h
           = (Inr (parse_failure_result e), h @ [Log ERROR (ParseFailed msg)])"
  using assms by (auto simp: parse_response_def)

lemma analyze_risk_parse_failure:
  assumes "messages_create w h vd = Inr resp"
    and "json_loads w (extract_json resp) = Inl e"
    and "e = JSONDecodeError msg \<or> e = ValueError msg"
    and "db_execute w (h @ [MessagesCreate vd, Log ERROR (ParseFailed msg), UtcNow]) = None"
  shows "\<exists>a. analyze_risk w (Some vd) h =
           (Inr a, h @ [MessagesCreate vd, Log ERROR (ParseFailed msg), UtcNow,
                        LogAnalysis a None None None])
         \<and> composite_score a = 7000 \<and> protocol_risk a = 7000 \<and> liquidity_risk a = 7000
         \<and> utilization_risk a = 7000 \<and> governance_risk a = 7000 \<and> oracle_risk a = 7000
         \<and> risk_level a = ''HIGH_RISK'' \<and> should_emergency_unwind a = False"
  using assms(1,4)
  by (simp add: analyze_risk_def parse_response_caught [OF assms(2,3)]
      make_analysis_parse_failure log_analysis_def)

lemma babbling_world_simps [simp]:
  "messages_create babbling_world h vd = Inr ''Sorry, no data.''"
  "json_loads babbling_world s = Inl (JSONDecodeError ''Expecting value'')"
  "db_execute babbling_world h = None"
  by (simp_all add: babbling_world_def quiet_world_def)

lemma db_down_world_simps [simp]:
  "messages_create db_down_world h vd = Inr ''Sorry, no data.''"
  "json_loads db_down_world s = Inl (JSONDecodeError ''Expecting value'')"
  "db_execute db_down_world h = Some (Failure ''connection refused'')"
  by (simp_all add: db_down_world_def babbling_world_def quiet_world_def)

lemma db_down_world_raises:
  "fst (analyze_risk db_down_world (Some vd) h) = Inl (Failure ''connection refused'')"
  by (simp add: analyze_risk_def parse_response_def make_analysis_parse_failure log_analysis_def)

text \<open>
  Claim C10, as stated: when the assessor's answer cannot be parsed as JSON,
  \<^verbatim>\<open>analyze_risk\<close> does not raise and consumes no retry. After the fallback dict is
  built, the analysis is written to the database outside of any \<^verbatim>\<open>try\<close> (line 292):
  with the database down \<^verbatim>\<open>analyze_risk\<close> raises, every attempt of the retry is consumed,
  and the result is the degraded analysis with the score 7500.
\<close>

theorem parse_failure_with_database_down:
  "messages_create db_down_world [AnalyzeRisk] example_vault_data = Inr ''Sorry, no data.''
   \<and> json_loads db_down_world (extract_json ''Sorry, no data.'')
       = Inl (JSONDecodeError ''Expecting value'')
   \<and> fst (analyze_risk db_down_world (Some example_vault_data) [AnalyzeRisk])
       = Inl (Failure ''connection refused'')
   \<and> filter retry_event (snd (run_risk_analysis_with_retry db_down_world example_vault_data [] []))
       = [AnalyzeRisk, Sleep 1, AnalyzeRisk, Sleep 2, AnalyzeRisk, Sleep 4]
   \<and> composite_score (fst (run_risk_analysis_with_retry db_down_world example_vault_data [] []))
       = 7500"
proof -
  have h: "\<forall>h. isl (fst (analyze_risk db_down_world (Some example_vault_data) h))"
    by (simp add: db_down_world_raises)
  show ?thesis
    using retry_exhausted [OF h, of "[]" "[]"] by (simp add: db_down_world_raises)
qed

text \<open>
  Claim C10, amended: when the assessor answers, \<^verbatim>\<open>json.loads\<close> of the slice from the
  first \<open>{\<close> to the last \<open>}\<close> of the answer raises \<^verbatim>\<open>JSONDecodeError\<close> or \<^verbatim>\<open>ValueError\<close>,
  and the database accepts the row of the analysis, then the first attempt of the retry
  returns what \<^verbatim>\<open>analyze_risk\<close> returns, without a sleep and without a second attempt: an
  analysis with the composite score and the five component scores 7000, the level
  \<open>HIGH_RISK\<close> and no emergency unwind.
\<close>

theorem parse_failure_fallback:
  assumes "messages_create w (h @ [AnalyzeRisk]) vault_data = Inr response_text"
    and "json_loads w (extract_json response_text) = Inl e"
    and "e = JSONDecodeError msg \<or> e = ValueError msg"
    and "db_execute w (h @ [AnalyzeRisk, MessagesCreate vault_data,
                           Log ERROR (ParseFailed msg), UtcNow]) = None"
  shows "fst (analyze_risk w (Some vault_data) (h @ [AnalyzeRisk]))
           = Inr (fst (run_risk_analysis_with_retry w vault_data signals h))
       \<and> filter retry_event
           (drop (length h) (snd (run_risk_analysis_with_retry w vault_data signals h)))
           = [AnalyzeRisk]
       \<and> composite_score (fst (run_risk_analysis_with_retry w vault_data signals h)) = 7000
       \<and> protocol_risk (fst (run_risk_analysis_with_retry w vault_data signals h)) = 7000
       \<and> liquidity_risk (fst (run_risk_analysis_with_retry w vault_data signals h)) = 7000
       \<and> utilization_risk (fst (run_risk_analysis_with_retry w vault_data signals h)) = 7000
       \<and> governance_risk (fst (run_risk_analysis_with_retry w vault_data signals h)) = 7000
       \<and> oracle_risk (fst (run_risk_analysis_with_retry w vault_data signals h)) = 7000
       \<and> risk_level (fst (run_risk_analysis_with_retry w vault_data signals h)) = ''HIGH_RISK''
       \<and> should_emergency_unwind (fst (run_risk_analysis_with_retry w vault_data signals h))
           = False"
proof -
  have db: "db_execute w ((h @ [AnalyzeRisk]) @ [MessagesCreate vault_data,
                Log ERROR (ParseFailed msg), UtcNow]) = None"
    using assms(4) by simp
  obtain a where a: "analyze_risk w (Some vault_data) (h @ [AnalyzeRisk]) =
           (Inr a, (h @ [AnalyzeRisk]) @ [MessagesCreate vault_data,
              Log ERROR (ParseFailed msg), UtcNow, LogAnalysis a None None None])"
      "composite_score a = 7000 \<and> protocol_risk a = 7000 \<and> liquidity_risk a = 7000
         \<and> utilization_risk a = 7000 \<and> governance_risk a = 7000 \<and> oracle_risk a = 7000
         \<and> risk_level a = ''HIGH_RISK'' \<and> should_emergency_unwind a = False"
    using analyze_risk_parse_failure [OF assms(1,2,3) db] by blast
  have run: "run_risk_analysis_with_retry w vault_data signals h =
          (a, h @ [AnalyzeRisk, MessagesCreate vault_data, Log ERROR (ParseFailed msg), UtcNow,
                   LogAnalysis a None None None])"
    using a(1) by (simp add: run_risk_analysis_with_retry_def upt_retries)
  show ?thesis using a by (simp add: run)
qed

theorem parse_failure_fallback_witness:
  "messages_create babbling_world ([] @ [AnalyzeRisk]) example_vault_data
     = Inr ''Sorry, no data.''
   \<and> json_loads babbling_world (extract_json ''Sorry, no data.'')
       = Inl (JSONDecodeError ''Expecting value'')
   \<and> db_execute babbling_world ([] @ [AnalyzeRisk, MessagesCreate example_vault_data,
                           Log ERROR (ParseFailed ''Expecting value''), UtcNow]) = None
   \<and> filter retry_event (snd (run_risk_analysis_with_retry babbling_world example_vault_data [] []))
       = [AnalyzeRisk]
   \<and> composite_score (fst (run_risk_analysis_with_retry babbling_world example_vault_data [] []))
       = 7000
   \<and> risk_level (fst (run_risk_analysis_with_retry babbling_world example_vault_data [] []))
       = ''HIGH_RISK''
   \<and> should_emergency_unwind
       (fst (run_risk_analysis_with_retry babbling_world example_vault_data [] [])) = False"
proof -
  have m: "messages_create babbling_world ([] @ [AnalyzeRisk]) example_vault_data
             = Inr ''Sorry, no data.''"
    by simp
  have j: "json_loads babbling_world (extract_json ''Sorry, no data.'')
             = Inl (JSONDecodeError ''Expecting value'')"
    by simp
  have c: "JSONDecodeError ''Expecting value'' = JSONDecodeError ''Expecting value''
             \<or> JSONDecodeError ''Expecting value'' = ValueError ''Expecting value''"
    by simp
  have d: "db_execute babbling_world ([] @ [AnalyzeRisk, MessagesCreate example_vault_data,
             Log ERROR (ParseFailed ''Expecting value''), UtcNow]) = None"
    by simp
  show ?thesis
    using m j d parse_failure_fallback [OF m j c d, of "[]"] by simp
qed

subsection \<open>The gate of the rebalance\<close>

lemma rebalance_event_simps [simp]:
  "rebalance_event CheckAndExecuteRebalance" "rebalance_event LastRebalanceTime"
  "rebalance_event TotalAssets" "rebalance_event GetOptimalGasPrice"
  "rebalance_event (LogProposal p res)" "rebalance_event (SubmitProposal p)"
  "rebalance_event (ExecuteProposal n)" "rebalance_event (Metric (REBALANCE_COUNTER s))"
  "\<not> rebalance_event (Metric (TVL_GAUGE x))" "\<not> rebalance_event (Metric (RISK_SCORE sc))"
  "\<not> rebalance_event (Metric (CYCLE_DURATION d))"
  "\<not> rebalance_event (Metric (CYCLE_COUNTER s))"
  "\<not> rebalance_event (Log lvl msg)" "\<not> rebalance_event UtcNow" "\<not> rebalance_event (Sleep n)"
  "\<not> rebalance_event FetchVaultData" "\<not> rebalance_event GetRecentSignals"
  "\<not> rebalance_event AnalyzeRisk" "\<not> rebalance_event (MessagesCreate vd)"
  "\<not> rebalance_event (LogAnalysis a act tx res)" "\<not> rebalance_event StrategyCount"
  "\<not> rebalance_event (Strategies i)" "\<not> rebalance_event (UpdateRiskOracle a)"
  "\<not> rebalance_event (PublishRiskUpdate a)"
  by (simp_all add: rebalance_event_def)

lemma published_simps [simp]:
  "published (PublishRiskUpdate a) = Some a"
  "published CheckAndExecuteRebalance = None" "published LastRebalanceTime = None"
  "published TotalAssets = None" "published GetOptimalGasPrice = None"
  "published (LogProposal p res) = None" "published (SubmitProposal p) = None"
  "published (ExecuteProposal n) = None" "published (Metric m) = None"
  "published (Log lvl msg) = None" "published UtcNow = None" "published (Sleep n) = None"
  "published FetchVaultData = None" "published GetRecentSignals = None"
  "published AnalyzeRisk = None" "published (MessagesCreate vd) = None"
  "published (LogAnalysis a act tx res) = None" "published StrategyCount = None"
  "published (Strategies i) = None" "published (UpdateRiskOracle a) = None"
  by (simp_all add: published_def)

lemma exec_event_simps [simp]:
  "exec_event (Log lvl msg)" "exec_event (Metric m)" "exec_event UtcNow"
  "exec_event CheckAndExecuteRebalance" "exec_event LastRebalanceTime"
  "exec_event StrategyCount" "exec_event (Strategies i)" "exec_event TotalAssets"
  "exec_event GetOptimalGasPrice" "exec_event (LogProposal p res)"
  "exec_event (SubmitProposal p)" "exec_event (ExecuteProposal n)"
  by (simp_all add: exec_event_def)

lemma assess_event_simps [simp]:
  "assess_event (Log lvl msg)" "assess_event UtcNow" "assess_event AnalyzeRisk"
  "assess_event (Sleep n)"
  by (simp_all add: assess_event_def)














text \<open>The run of a cycle in the world where a rebalance is due.\<close>

lemma rebalancing_world_simps [simp]:
  "utc_offset (rebalancing_world score lvl unwind) = 0"
  "utcnow (rebalancing_world score lvl unwind) h = 1700000000000000"
  "fetch_vault_data (rebalancing_world score lvl unwind) h = Inr example_vault_data"
  "get_recent_signals (rebalancing_world score lvl unwind) h = Inr []"
  "messages_create (rebalancing_world score lvl unwind) h vd = Inr ''{}''"
  "json_loads (rebalancing_world score lvl unwind) s = Inr (example_result score lvl unwind [])"
  "db_execute (rebalancing_world score lvl unwind) h = None"
  "strategy_count (rebalancing_world score lvl unwind) h = Inr 3"
  "strategies (rebalancing_world score lvl unwind) h = vault_ABC"
  "last_rebalance_time (rebalancing_world score lvl unwind) h = Inr 0"
  "total_assets (rebalancing_world score lvl unwind) h = Inr 10000000000000"
  "get_optimal_gas_price (rebalancing_world score lvl unwind) h = Inr 30"
  "submit_proposal_onchain (rebalancing_world score lvl unwind) h p = Some 1"
  "execute_approved_proposal (rebalancing_world score lvl unwind) h i = True"
  by (simp_all add: rebalancing_world_def answering_world_def quiet_world_def)


lemma rebalancing_analysis_fields [simp]:
  "composite_score (rebalancing_analysis score lvl unwind) = score"
  "risk_level (rebalancing_analysis score lvl unwind) = lvl"
  "should_emergency_unwind (rebalancing_analysis score lvl unwind) = unwind"
  "unwind_strategies (rebalancing_analysis score lvl unwind) = []"
  by (simp_all add: rebalancing_analysis_def example_analysis_def)








lemma fields_AC [simp]:
  "name over_A = ''A''" "name under_C = ''C''"
  "current_apy over_A = 5 / 100" "current_apy under_C = 5 / 100"
  by (simp_all add: example_defs)


lemma example_proposal_fields [simp]:
  "from_strategy example_proposal = ''A''" "to_strategy example_proposal = ''C''"
  by (simp_all add: example_proposal_def)






end
